theory Spec2Isabelle
  imports Complex_Main "HOL-Library.Multiset"
begin

section \<open>Inventory management backend: storage model\<close>

text \<open>
  The backend (\<^verbatim>\<open>main.py\<close>) is a set of request handlers over one SQLite
  file whose schema is created by \<^verbatim>\<open>scripts/setup_database.py\<close>.  The
  embedding follows the handlers statement by statement:

  \<^item> a table is the list of its rows in insertion order, each row paired with its
    \<^verbatim>\<open>id\<close> (\<^verbatim>\<open>INTEGER PRIMARY KEY AUTOINCREMENT\<close>), together with the
    table's \<^verbatim>\<open>sqlite_sequence\<close> counter;
  \<^item> a Python \<^verbatim>\<open>int\<close> is an \<open>int\<close>; SQLite takes it as a parameter only
    within 64 bits, and the driver raises \<^verbatim>\<open>OverflowError\<close> otherwise;
  \<^item> a Python \<^verbatim>\<open>float\<close> is a finite double, an infinity or NaN; the model does
    no floating point arithmetic: a product of an integer and a double is kept as the
    pair of its factors, and NaN is stored as \<^verbatim>\<open>NULL\<close>;
  \<^item> the \<^verbatim>\<open>quantity\<close> of an item is its numeric value, always a whole number,
    and the database records beside the table which items hold it as a \<^verbatim>\<open>REAL\<close>,
    which is what \<^verbatim>\<open>quantity - ?\<close> leaves when it overflows 64 bits;
  \<^item> \<^verbatim>\<open>CURRENT_TIMESTAMP\<close> is an argument \<open>now\<close> of every handler that inserts;
  \<^item> a handler takes the stored database and returns the stored database after the
    call together with either the raised error or the returned value;
  \<^item> a connection holds the stored database and the uncommitted one:
    \<^verbatim>\<open>commit\<close> stores the uncommitted database, \<^verbatim>\<open>close\<close> (or dropping the
    connection) discards it.

  The handlers are modelled as the Python functions: what the route decorators do with a
  returned value (\<^verbatim>\<open>response_model\<close> validation) is outside them.  Foreign
  key clauses are not enforced, since \<^verbatim>\<open>get_db\<close> never turns the pragma on.
  The tables exist: \<^verbatim>\<open>setup_database.py\<close> has run.
\<close>

subsection \<open>Errors\<close>

text \<open>
  \<^verbatim>\<open>HTTPException(status_code, detail)\<close> is what a handler raises on purpose.
  \<open>IntegrityError\<close> is \<^verbatim>\<open>sqlite3.IntegrityError\<close> (a \<^verbatim>\<open>UNIQUE\<close> or
  \<^verbatim>\<open>NOT NULL\<close> constraint): inside a handler's \<^verbatim>\<open>try\<close> it is caught and
  turned into an \<open>HTTPException\<close>, outside it leaves the handler uncaught.
  \<open>OverflowError\<close> is Python's, for an \<^verbatim>\<open>int\<close> too large for SQLite or for a
  \<^verbatim>\<open>float\<close>.  \<open>OperationalError\<close> is \<^verbatim>\<open>sqlite3.OperationalError\<close>, raised
  when a table has used up its ids.  \<open>TypeError\<close> is \<^verbatim>\<open>dict(None)\<close>.  No
  handler catches the last three.
\<close>

datatype error =
  HTTPException (status_code: nat) (detail: string)
  | IntegrityError | OverflowError | OperationalError | TypeError

subsection \<open>Integers and doubles\<close>

text \<open>What SQLite takes as an \<^verbatim>\<open>INTEGER\<close> parameter.\<close>

definition bindable :: "int \<Rightarrow> bool" where
  "bindable i \<longleftrightarrow> - (2 ^ 63) \<le> i \<and> i \<le> 2 ^ 63 - 1"

text \<open>
  A Python \<^verbatim>\<open>float\<close>: a finite double, written by its value, an infinity or NaN.
  A \<^verbatim>\<open>REAL\<close> value is such a double or the product \<open>Times q x\<close> of the double
  nearest to the integer \<open>q\<close> and the double \<open>x\<close>, as the multiplication returns it.
\<close>

datatype py_float = Finite rat | Infinity | NegInfinity | NaN

datatype sql_real = Real py_float | Times int py_float

text \<open>
  A NaN is stored as \<^verbatim>\<open>NULL\<close>.  A product is NaN when a factor is, and when it is
  zero times an infinity.
\<close>

fun is_nan :: "sql_real \<Rightarrow> bool" where
  "is_nan (Real x) = (x = NaN)"
| "is_nan (Times q x) = (x = NaN \<or> q = 0 \<and> (x = Infinity \<or> x = NegInfinity))"

text \<open>
  \<^verbatim>\<open>quantity * price_per_unit\<close> in Python: the \<^verbatim>\<open>int\<close> is converted to a
  \<^verbatim>\<open>float\<close> first, which raises when it rounds beyond the largest double.
\<close>

definition py_times :: "int \<Rightarrow> py_float \<Rightarrow> error + sql_real" where
  "py_times q x = (if 2 ^ 1024 - 2 ^ 970 \<le> \<bar>q\<bar> then Inl OverflowError else Inr (Times q x))"

text \<open>
  The double nearest to an integer: 53 significant bits, a tie to the even neighbour.
\<close>

fun bit_length :: "nat \<Rightarrow> nat" where
  "bit_length n = (if n = 0 then 0 else Suc (bit_length (n div 2)))"

declare bit_length.simps [simp del]

definition nat_to_double :: "nat \<Rightarrow> nat" where
  "nat_to_double n =
     (if bit_length n \<le> 53 then n
      else let u = 2 ^ (bit_length n - 53); q = n div u; r = n mod u
           in (if 2 * r < u then q
               else if u < 2 * r then q + 1
               else if even q then q else q + 1) * u)"

definition to_double :: "int \<Rightarrow> int" where
  "to_double n = (if n < 0 then - int (nat_to_double (nat (- n))) else int (nat_to_double (nat n)))"

text \<open>
  \<^verbatim>\<open>quantity - ?\<close> in SQLite, on a quantity with its storage class (\<open>True\<close> for
  \<^verbatim>\<open>REAL\<close>): 64-bit integer subtraction when the quantity is an \<^verbatim>\<open>INTEGER\<close> and
  the difference fits; otherwise both operands become doubles and the difference is a
  double.  The column's \<^verbatim>\<open>INTEGER\<close> affinity turns that double back into an
  \<^verbatim>\<open>INTEGER\<close> when it lies strictly between the least and the greatest one.
\<close>

definition sql_subtract :: "bool \<times> int \<Rightarrow> int \<Rightarrow> bool \<times> int" where
  "sql_subtract v q =
     (if \<not> fst v \<and> bindable (snd v - q) then (False, snd v - q)
      else let r = to_double (to_double (snd v) - to_double q)
           in (\<not> (- (2 ^ 63) < r \<and> r < 2 ^ 63 - 1), r))"

subsection \<open>Tables\<close>

record 'r table =
  rows :: "(int \<times> 'r) list"
  seq :: int

definition empty_table :: "'r table" where
  "empty_table = \<lparr>rows = [], seq = 0\<rparr>"

text \<open>
  \<^verbatim>\<open>AUTOINCREMENT\<close>: one more than the largest id the table ever held; when that
  was the greatest 64-bit integer, the insert is refused.
\<close>

definition next_rowid :: "'r table \<Rightarrow> int" where
  "next_rowid t = max (seq t) (fold max (map fst (rows t)) 0) + 1"

definition insert_row :: "'r \<Rightarrow> 'r table \<Rightarrow> error + 'r table" where
  "insert_row r t =
     (let i = next_rowid t
      in if 2 ^ 63 - 1 < i then Inl OperationalError
         else Inr (t\<lparr>rows := rows t @ [(i, r)], seq := i\<rparr>))"

text \<open>\<^verbatim>\<open>SELECT ... WHERE id = ?\<close> followed by \<^verbatim>\<open>fetchone()\<close>.\<close>

definition select_by_id :: "'r table \<Rightarrow> int \<Rightarrow> 'r option" where
  "select_by_id t i = map_of (rows t) i"

text \<open>\<^verbatim>\<open>UPDATE ... SET ... WHERE id = ?\<close>.\<close>

definition update_by_id :: "('r \<Rightarrow> 'r) \<Rightarrow> int \<Rightarrow> 'r table \<Rightarrow> 'r table" where
  "update_by_id f i t = t\<lparr>rows := map (\<lambda>(k, r). if k = i then (k, f r) else (k, r)) (rows t)\<rparr>"

text \<open>\<^verbatim>\<open>DELETE ... WHERE id = ?\<close>.\<close>

definition delete_by_id :: "int \<Rightarrow> 'r table \<Rightarrow> 'r table" where
  "delete_by_id i t = t\<lparr>rows := filter (\<lambda>(k, r). k \<noteq> i) (rows t)\<rparr>"

text \<open>
  A \<^verbatim>\<open>UNIQUE\<close> column \<open>col\<close>: an insert of the value \<open>v\<close> is refused when some
  row holds it; an update of the row \<open>i\<close> to \<open>v\<close> is refused when the row exists and
  some other row holds \<open>v\<close>.
\<close>

definition insert_conflict :: "('r \<Rightarrow> 'k) \<Rightarrow> 'k \<Rightarrow> 'r table \<Rightarrow> bool" where
  "insert_conflict col v t = (v \<in> set (map (col \<circ> snd) (rows t)))"

definition update_conflict :: "('r \<Rightarrow> 'k) \<Rightarrow> 'k \<Rightarrow> int \<Rightarrow> 'r table \<Rightarrow> bool" where
  "update_conflict col v i t =
     (i \<in> set (map fst (rows t)) \<and>
      v \<in> set (map (col \<circ> snd) (filter (\<lambda>(k, r). k \<noteq> i) (rows t))))"

subsection \<open>Schema\<close>

text \<open>
  One record per table of \<^verbatim>\<open>setup_database.py\<close>, the columns after \<^verbatim>\<open>id\<close>.
  Field names carry the alias the queries of \<^verbatim>\<open>main.py\<close> give the table
  (\<^verbatim>\<open>ii\<close>, \<^verbatim>\<open>t\<close>, \<^verbatim>\<open>l\<close>, \<^verbatim>\<open>c\<close>, \<^verbatim>\<open>p\<close>; \<^verbatim>\<open>u\<close> for users).
\<close>

record users_row =
  u_username :: string
  u_password :: string
  u_email :: string
  u_role :: string
  u_created_at :: string

record locations_row =
  l_name :: string
  l_address :: string
  l_created_at :: string

record categories_row =
  c_name :: string
  c_description :: "string option"
  c_created_at :: string

record inventory_items_row =
  ii_name :: string
  ii_sku :: string
  ii_category_id :: int
  ii_quantity :: int
  ii_min_stock :: int
  ii_price :: py_float
  ii_location_id :: int
  ii_printer_id :: "int option"
  ii_status :: string
  ii_created_at :: string

record printers_row =
  p_model :: string
  p_serial_number :: string
  p_location_id :: int
  p_status :: string
  p_supplies :: "string option"
  p_created_at :: string

record transactions_row =
  t_item_id :: int
  t_location_id :: int
  t_transaction_type :: string
  t_quantity :: int
  t_price_per_unit :: py_float
  t_total_amount :: sql_real
  t_payment_status :: string
  t_payment_date :: "string option"
  t_notes :: "string option"
  t_created_at :: string

text \<open>
  The six tables, and the ids of the items whose \<^verbatim>\<open>quantity\<close> is held as a
  \<^verbatim>\<open>REAL\<close>.
\<close>

record db =
  users :: "users_row table"
  locations :: "locations_row table"
  categories :: "categories_row table"
  inventory_items :: "inventory_items_row table"
  printers :: "printers_row table"
  transactions :: "transactions_row table"
  quantity_real :: "int set"

subsection \<open>Connections\<close>

record conn =
  stored :: db
  pending :: db

definition get_db :: "db \<Rightarrow> conn" where
  "get_db s = \<lparr>stored = s, pending = s\<rparr>"

definition commit :: "conn \<Rightarrow> conn" where
  "commit c = c\<lparr>stored := pending c\<rparr>"

definition close :: "conn \<Rightarrow> db" where
  "close c = stored c"

text \<open>A statement that can be refused leaves the connection as it was.\<close>

definition execute :: "(db \<Rightarrow> error + db) \<Rightarrow> conn \<Rightarrow> error + conn" where
  "execute stmt c = (case stmt (pending c) of Inl e \<Rightarrow> Inl e | Inr d \<Rightarrow> Inr (c\<lparr>pending := d\<rparr>))"

subsection \<open>Request models\<close>

text \<open>
  The pydantic models; a field \<^verbatim>\<open>item.name\<close> of the handler's parameter
  \<^verbatim>\<open>item\<close> is \<open>item_name\<close>, and so on for \<^verbatim>\<open>user\<close>, \<^verbatim>\<open>category\<close>,
  \<^verbatim>\<open>location\<close>, \<^verbatim>\<open>printer\<close> and \<^verbatim>\<open>transaction\<close>.
\<close>

record UserRegister =
  user_username :: string
  user_password :: string
  user_email :: string
  user_role :: string

record CategoryCreate =
  category_name :: string
  category_description :: "string option"

record LocationCreate =
  location_name :: string
  location_address :: string

record InventoryItemCreate =
  item_name :: string
  item_sku :: string
  item_category_id :: int
  item_quantity :: int
  item_min_stock :: int
  item_price :: py_float
  item_location_id :: int

record PrinterCreate =
  printer_model :: string
  printer_serial_number :: string
  printer_location_id :: int
  printer_status :: string
  printer_supplies :: "string option"

record TransactionCreate =
  transaction_item_id :: int
  transaction_location_id :: int
  transaction_transaction_type :: string
  transaction_quantity :: int
  transaction_price_per_unit :: py_float
  transaction_payment_status :: string
  transaction_payment_date :: "string option"
  transaction_notes :: "string option"

subsection \<open>Returned values\<close>

text \<open>
  The dictionaries the handlers return.  A joined row keeps the table's row whole
  (\<^verbatim>\<open>ii.*\<close>, \<^verbatim>\<open>p.*\<close>, \<^verbatim>\<open>t.*\<close>) next to the joined and computed columns;
  a \<^verbatim>\<open>LEFT JOIN\<close> that finds no row gives \<open>None\<close>.
\<close>

record UserResponse =
  response_id :: int
  response_username :: string
  response_email :: string
  response_role :: string

record LocationResponse =
  response_location_id :: int
  response_name :: string
  response_address :: string
  response_items :: nat
  response_printers :: nat

record inventory_item_result =
  result_id :: int
  result_ii :: inventory_items_row
  result_category_name :: "string option"
  result_location_name :: "string option"
  result_total_price :: sql_real

record low_stock_result =
  low_id :: int
  low_ii :: inventory_items_row
  low_category_name :: "string option"
  low_location_name :: "string option"
  low_total_value :: sql_real

record printer_result =
  printer_id :: int
  printer_p :: printers_row
  printer_location_name :: "string option"

record transaction_result =
  trans_id :: int
  trans_t :: transactions_row
  trans_item_name :: "string option"
  trans_location_name :: "string option"


subsection \<open>Statements\<close>

text \<open>
  Each \<^verbatim>\<open>INSERT\<close>, \<^verbatim>\<open>UPDATE\<close> and \<^verbatim>\<open>DELETE\<close> of \<^verbatim>\<open>main.py\<close>.  A
  statement is refused, in this order: with \<open>OverflowError\<close> when an integer parameter
  is not \<open>bindable\<close>; with \<open>OperationalError\<close> when an insert finds no id left; with
  \<open>IntegrityError\<close> when a row it writes would repeat a \<^verbatim>\<open>UNIQUE\<close> value
  (\<^verbatim>\<open>users.username\<close>, \<^verbatim>\<open>users.email\<close>, \<^verbatim>\<open>locations.name\<close>,
  \<^verbatim>\<open>categories.name\<close>, \<^verbatim>\<open>inventory_items.sku\<close>, \<^verbatim>\<open>printers.serial_number\<close>)
  or hold a NaN in a \<^verbatim>\<open>REAL NOT NULL\<close> column.  The other \<^verbatim>\<open>NOT NULL\<close> columns
  always receive a value, because the request models have no optional field for one.
\<close>

definition insert_users :: "users_row \<Rightarrow> db \<Rightarrow> error + db" where
  "insert_users r d =
     (case insert_row r (users d) of
        Inl e \<Rightarrow> Inl e
      | Inr t \<Rightarrow>
          if insert_conflict u_username (u_username r) (users d)
             \<or> insert_conflict u_email (u_email r) (users d)
          then Inl IntegrityError
          else Inr (d\<lparr>users := t\<rparr>))"

definition insert_categories :: "categories_row \<Rightarrow> db \<Rightarrow> error + db" where
  "insert_categories r d =
     (case insert_row r (categories d) of
        Inl e \<Rightarrow> Inl e
      | Inr t \<Rightarrow>
          if insert_conflict c_name (c_name r) (categories d)
          then Inl IntegrityError
          else Inr (d\<lparr>categories := t\<rparr>))"

definition insert_locations :: "locations_row \<Rightarrow> db \<Rightarrow> error + db" where
  "insert_locations r d =
     (case insert_row r (locations d) of
        Inl e \<Rightarrow> Inl e
      | Inr t \<Rightarrow>
          if insert_conflict l_name (l_name r) (locations d)
          then Inl IntegrityError
          else Inr (d\<lparr>locations := t\<rparr>))"

text \<open>The new row holds its quantity as an \<^verbatim>\<open>INTEGER\<close>.\<close>

definition insert_inventory_items :: "inventory_items_row \<Rightarrow> db \<Rightarrow> error + db" where
  "insert_inventory_items r d =
     (if \<not> list_all bindable
            ([ii_category_id r, ii_quantity r, ii_min_stock r, ii_location_id r]
             @ (case ii_printer_id r of None \<Rightarrow> [] | Some p \<Rightarrow> [p]))
      then Inl OverflowError
      else case insert_row r (inventory_items d) of
             Inl e \<Rightarrow> Inl e
           | Inr t \<Rightarrow>
               if insert_conflict ii_sku (ii_sku r) (inventory_items d) \<or> ii_price r = NaN
               then Inl IntegrityError
               else Inr (d\<lparr>inventory_items := t,
                           quantity_real := quantity_real d - {next_rowid (inventory_items d)}\<rparr>))"

definition insert_printers :: "printers_row \<Rightarrow> db \<Rightarrow> error + db" where
  "insert_printers r d =
     (if \<not> bindable (p_location_id r) then Inl OverflowError
      else case insert_row r (printers d) of
             Inl e \<Rightarrow> Inl e
           | Inr t \<Rightarrow>
               if insert_conflict p_serial_number (p_serial_number r) (printers d)
               then Inl IntegrityError
               else Inr (d\<lparr>printers := t\<rparr>))"

definition insert_transactions :: "transactions_row \<Rightarrow> db \<Rightarrow> error + db" where
  "insert_transactions r d =
     (if \<not> list_all bindable [t_item_id r, t_location_id r, t_quantity r]
      then Inl OverflowError
      else case insert_row r (transactions d) of
             Inl e \<Rightarrow> Inl e
           | Inr t \<Rightarrow>
               if t_price_per_unit r = NaN \<or> is_nan (t_total_amount r)
               then Inl IntegrityError
               else Inr (d\<lparr>transactions := t\<rparr>))"

text \<open>
  An \<^verbatim>\<open>UPDATE ... WHERE id = ?\<close> checks the constraints on the rows it writes: with
  no row of that id it writes nothing and is not refused.
\<close>

definition update_locations :: "LocationCreate \<Rightarrow> int \<Rightarrow> db \<Rightarrow> error + db" where
  "update_locations location location_id d =
     (if \<not> bindable location_id then Inl OverflowError
      else if update_conflict l_name (location_name location) location_id (locations d)
      then Inl IntegrityError
      else Inr (d\<lparr>locations :=
        update_by_id
          (\<lambda>r. r\<lparr>l_name := location_name location, l_address := location_address location\<rparr>)
          location_id (locations d)\<rparr>))"

text \<open>The rows written hold the new quantity as an \<^verbatim>\<open>INTEGER\<close>.\<close>

definition update_inventory_items ::
    "InventoryItemCreate \<Rightarrow> string \<Rightarrow> int \<Rightarrow> db \<Rightarrow> error + db" where
  "update_inventory_items item status item_id d =
     (if \<not> list_all bindable
            [item_category_id item, item_quantity item, item_min_stock item,
             item_location_id item, item_id]
      then Inl OverflowError
      else if update_conflict ii_sku (item_sku item) item_id (inventory_items d)
              \<or> item_id \<in> set (map fst (rows (inventory_items d))) \<and> item_price item = NaN
      then Inl IntegrityError
      else Inr (d\<lparr>inventory_items :=
        update_by_id
          (\<lambda>r. r\<lparr>ii_name := item_name item, ii_sku := item_sku item,
                  ii_category_id := item_category_id item, ii_quantity := item_quantity item,
                  ii_min_stock := item_min_stock item, ii_price := item_price item,
                  ii_location_id := item_location_id item, ii_status := status\<rparr>)
          item_id (inventory_items d),
        quantity_real :=
          (if item_id \<in> set (map fst (rows (inventory_items d)))
           then quantity_real d - {item_id} else quantity_real d)\<rparr>))"

definition update_printers :: "PrinterCreate \<Rightarrow> int \<Rightarrow> db \<Rightarrow> error + db" where
  "update_printers printer pid d =
     (if \<not> list_all bindable [printer_location_id printer, pid] then Inl OverflowError
      else if update_conflict p_serial_number (printer_serial_number printer) pid (printers d)
      then Inl IntegrityError
      else Inr (d\<lparr>printers :=
        update_by_id
          (\<lambda>r. r\<lparr>p_model := printer_model printer,
                  p_serial_number := printer_serial_number printer,
                  p_location_id := printer_location_id printer,
                  p_status := printer_status printer, p_supplies := printer_supplies printer\<rparr>)
          pid (printers d)\<rparr>))"

text \<open>
  \<^verbatim>\<open>UPDATE inventory_items SET quantity = quantity - ? WHERE id = ?\<close>: the rows of
  that id take the difference \<open>sql_subtract\<close> gives, and its storage class.
\<close>

definition decrement_quantity :: "int \<Rightarrow> int \<Rightarrow> db \<Rightarrow> error + db" where
  "decrement_quantity quantity item_id d =
     (if \<not> list_all bindable [quantity, item_id] then Inl OverflowError
      else Inr (d\<lparr>inventory_items :=
        update_by_id
          (\<lambda>r. r\<lparr>ii_quantity :=
                   snd (sql_subtract (item_id \<in> quantity_real d, ii_quantity r) quantity)\<rparr>)
          item_id (inventory_items d),
        quantity_real :=
          (case select_by_id (inventory_items d) item_id of
             None \<Rightarrow> quantity_real d
           | Some r \<Rightarrow>
               if fst (sql_subtract (item_id \<in> quantity_real d, ii_quantity r) quantity)
               then insert item_id (quantity_real d)
               else quantity_real d - {item_id})\<rparr>))"

definition delete_inventory_items :: "int \<Rightarrow> db \<Rightarrow> error + db" where
  "delete_inventory_items item_id d =
     (if \<not> bindable item_id then Inl OverflowError
      else Inr (d\<lparr>inventory_items := delete_by_id item_id (inventory_items d),
        quantity_real :=
          (if item_id \<in> set (map fst (rows (inventory_items d)))
           then quantity_real d - {item_id} else quantity_real d)\<rparr>))"

definition delete_locations :: "int \<Rightarrow> db \<Rightarrow> error + db" where
  "delete_locations location_id d =
     (if \<not> bindable location_id then Inl OverflowError
      else Inr (d\<lparr>locations := delete_by_id location_id (locations d)\<rparr>))"

definition delete_printers :: "int \<Rightarrow> db \<Rightarrow> error + db" where
  "delete_printers pid d =
     (if \<not> bindable pid then Inl OverflowError
      else Inr (d\<lparr>printers := delete_by_id pid (printers d)\<rparr>))"

subsection \<open>Queries\<close>

text \<open>
  A \<^verbatim>\<open>LEFT JOIN x ON ... = x.id\<close> joins on a primary key, so it finds at most one
  row: it is the lookup of that id.  The ids these queries are given have been
  parameters of the statement before them, or are the id it assigned.
\<close>

definition select_inventory_item :: "db \<Rightarrow> int \<Rightarrow> inventory_item_result option" where
  "select_inventory_item d i =
     map_option
       (\<lambda>r. \<lparr>result_id = i, result_ii = r,
             result_category_name = map_option c_name (select_by_id (categories d) (ii_category_id r)),
             result_location_name = map_option l_name (select_by_id (locations d) (ii_location_id r)),
             result_total_price = Times (ii_quantity r) (ii_price r)\<rparr>)
       (select_by_id (inventory_items d) i)"

definition select_printer :: "db \<Rightarrow> int \<Rightarrow> printer_result option" where
  "select_printer d i =
     map_option
       (\<lambda>r. \<lparr>printer_id = i, printer_p = r,
             printer_location_name = map_option l_name (select_by_id (locations d) (p_location_id r))\<rparr>)
       (select_by_id (printers d) i)"

definition select_transaction :: "db \<Rightarrow> int \<Rightarrow> transaction_result option" where
  "select_transaction d i =
     map_option
       (\<lambda>r. \<lparr>trans_id = i, trans_t = r,
             trans_item_name = map_option ii_name (select_by_id (inventory_items d) (t_item_id r)),
             trans_location_name = map_option l_name (select_by_id (locations d) (t_location_id r))\<rparr>)
       (select_by_id (transactions d) i)"

text \<open>The number of rows \<^verbatim>\<open>WHERE location_id = ?\<close>.\<close>

definition count_items_at :: "db \<Rightarrow> int \<Rightarrow> nat" where
  "count_items_at d location_id =
     length (filter (\<lambda>(k, r). ii_location_id r = location_id) (rows (inventory_items d)))"

definition count_printers_at :: "db \<Rightarrow> int \<Rightarrow> nat" where
  "count_printers_at d location_id =
     length (filter (\<lambda>(k, r). p_location_id r = location_id) (rows (printers d)))"


section \<open>Handlers\<close>

text \<open>
  Every handler opens a connection on the stored database, runs its statements, and
  closes it.  The first component of the result is the stored database afterwards.
\<close>

subsection \<open>Users, categories\<close>

definition register :: "string \<Rightarrow> db \<Rightarrow> UserRegister \<Rightarrow> db \<times> (error + UserResponse)" where
  "register now s user =
     (let c0 = get_db s
      in case execute (insert_users
                \<lparr>u_username = user_username user, u_password = user_password user,
                 u_email = user_email user, u_role = user_role user, u_created_at = now\<rparr>) c0 of
           Inl e \<Rightarrow>
             (close c0,
              Inl (if e = IntegrityError
                   then HTTPException 400 ''Username or email already exists'' else e))
         | Inr c1 \<Rightarrow>
             (let c2 = commit c1;
                  user_id = seq (users (pending c2))
              in case select_by_id (users (pending c2)) user_id of
                   None \<Rightarrow> (close c2, Inl TypeError)
                 | Some new_user \<Rightarrow>
                     (close c2,
                      Inr \<lparr>response_id = user_id, response_username = u_username new_user,
                           response_email = u_email new_user,
                           response_role = u_role new_user\<rparr>)))"

definition create_category ::
    "string \<Rightarrow> db \<Rightarrow> CategoryCreate \<Rightarrow> db \<times> (error + int \<times> categories_row)" where
  "create_category now s category =
     (let c0 = get_db s
      in case execute (insert_categories
                \<lparr>c_name = category_name category,
                 c_description = category_description category, c_created_at = now\<rparr>) c0 of
           Inl e \<Rightarrow>
             (close c0,
              Inl (if e = IntegrityError
                   then HTTPException 400 ''Category already exists'' else e))
         | Inr c1 \<Rightarrow>
             (let c2 = commit c1;
                  cat_id = seq (categories (pending c2))
              in case select_by_id (categories (pending c2)) cat_id of
                   None \<Rightarrow> (close c2, Inl TypeError)
                 | Some new_cat \<Rightarrow> (close c2, Inr (cat_id, new_cat))))"

subsection \<open>Inventory\<close>

definition create_inventory_item ::
    "string \<Rightarrow> db \<Rightarrow> InventoryItemCreate \<Rightarrow> db \<times> (error + inventory_item_result)" where
  "create_inventory_item now s item =
     (let c0 = get_db s;
          status = (if item_quantity item < item_min_stock item
                    then ''Low Stock'' else ''In Stock'')
      in case execute (insert_inventory_items
                \<lparr>ii_name = item_name item, ii_sku = item_sku item,
                 ii_category_id = item_category_id item, ii_quantity = item_quantity item,
                 ii_min_stock = item_min_stock item, ii_price = item_price item,
                 ii_location_id = item_location_id item, ii_printer_id = None,
                 ii_status = status, ii_created_at = now\<rparr>) c0 of
           Inl e \<Rightarrow>
             (close c0,
              Inl (if e = IntegrityError then HTTPException 400 ''SKU already exists'' else e))
         | Inr c1 \<Rightarrow>
             (let c2 = commit c1;
                  item_id = seq (inventory_items (pending c2))
              in case select_inventory_item (pending c2) item_id of
                   None \<Rightarrow> (close c2, Inl TypeError)
                 | Some new_item \<Rightarrow> (close c2, Inr new_item)))"

text \<open>The \<^verbatim>\<open>UPDATE\<close> of this handler runs outside any \<^verbatim>\<open>try\<close>.\<close>

definition update_inventory_item ::
    "db \<Rightarrow> int \<Rightarrow> InventoryItemCreate \<Rightarrow> db \<times> (error + inventory_item_result)" where
  "update_inventory_item s item_id item =
     (let c0 = get_db s;
          status = (if item_quantity item < item_min_stock item
                    then ''Low Stock'' else ''In Stock'')
      in case execute (update_inventory_items item status item_id) c0 of
           Inl e \<Rightarrow> (close c0, Inl e)
         | Inr c1 \<Rightarrow>
             (let c2 = commit c1
              in case select_inventory_item (pending c2) item_id of
                   None \<Rightarrow> (close c2, Inl (HTTPException 404 ''Item not found''))
                 | Some updated_item \<Rightarrow> (close c2, Inr updated_item)))"

definition delete_inventory_item :: "db \<Rightarrow> int \<Rightarrow> db \<times> (error + string)" where
  "delete_inventory_item s item_id =
     (let c0 = get_db s
      in case execute (delete_inventory_items item_id) c0 of
           Inl e \<Rightarrow> (close c0, Inl e)
         | Inr c1 \<Rightarrow> (close (commit c1), Inr ''Item deleted successfully''))"

subsection \<open>Locations\<close>

definition create_location ::
    "string \<Rightarrow> db \<Rightarrow> LocationCreate \<Rightarrow> db \<times> (error + LocationResponse)" where
  "create_location now s location =
     (let c0 = get_db s
      in case execute (insert_locations
                \<lparr>l_name = location_name location, l_address = location_address location,
                 l_created_at = now\<rparr>) c0 of
           Inl e \<Rightarrow>
             (close c0,
              Inl (if e = IntegrityError
                   then HTTPException 400 ''Location already exists'' else e))
         | Inr c1 \<Rightarrow>
             (let c2 = commit c1;
                  location_id = seq (locations (pending c2))
              in case select_by_id (locations (pending c2)) location_id of
                   None \<Rightarrow> (close c2, Inl TypeError)
                 | Some new_location \<Rightarrow>
                     (close c2,
                      Inr \<lparr>response_location_id = location_id,
                           response_name = l_name new_location,
                           response_address = l_address new_location,
                           response_items = 0, response_printers = 0\<rparr>)))"

definition update_location ::
    "db \<Rightarrow> int \<Rightarrow> LocationCreate \<Rightarrow> db \<times> (error + LocationResponse)" where
  "update_location s location_id location =
     (let c0 = get_db s
      in case execute (update_locations location location_id) c0 of
           Inl e \<Rightarrow> (close c0, Inl e)
         | Inr c1 \<Rightarrow>
             (let c2 = commit c1
              in case select_by_id (locations (pending c2)) location_id of
                   None \<Rightarrow> (close c2, Inl (HTTPException 404 ''Location not found''))
                 | Some updated_loc \<Rightarrow>
                     (close c2,
                      Inr \<lparr>response_location_id = location_id,
                           response_name = l_name updated_loc,
                           response_address = l_address updated_loc,
                           response_items = count_items_at (pending c2) location_id,
                           response_printers = count_printers_at (pending c2) location_id\<rparr>)))"

definition delete_location :: "db \<Rightarrow> int \<Rightarrow> db \<times> (error + string)" where
  "delete_location s location_id =
     (let c0 = get_db s
      in case execute (delete_locations location_id) c0 of
           Inl e \<Rightarrow> (close c0, Inl e)
         | Inr c1 \<Rightarrow> (close (commit c1), Inr ''Location deleted successfully''))"

subsection \<open>Printers\<close>

definition create_printer ::
    "string \<Rightarrow> db \<Rightarrow> PrinterCreate \<Rightarrow> db \<times> (error + printer_result)" where
  "create_printer now s printer =
     (let c0 = get_db s
      in case execute (insert_printers
                \<lparr>p_model = printer_model printer,
                 p_serial_number = printer_serial_number printer,
                 p_location_id = printer_location_id printer,
                 p_status = printer_status printer, p_supplies = printer_supplies printer,
                 p_created_at = now\<rparr>) c0 of
           Inl e \<Rightarrow>
             (close c0,
              Inl (if e = IntegrityError
                   then HTTPException 400 ''Serial number already exists'' else e))
         | Inr c1 \<Rightarrow>
             (let c2 = commit c1;
                  pid = seq (printers (pending c2))
              in case select_printer (pending c2) pid of
                   None \<Rightarrow> (close c2, Inl TypeError)
                 | Some new_printer \<Rightarrow> (close c2, Inr new_printer)))"

definition update_printer ::
    "db \<Rightarrow> int \<Rightarrow> PrinterCreate \<Rightarrow> db \<times> (error + printer_result)" where
  "update_printer s pid printer =
     (let c0 = get_db s
      in case execute (update_printers printer pid) c0 of
           Inl e \<Rightarrow> (close c0, Inl e)
         | Inr c1 \<Rightarrow>
             (let c2 = commit c1
              in case select_printer (pending c2) pid of
                   None \<Rightarrow> (close c2, Inl (HTTPException 404 ''Printer not found''))
                 | Some updated_printer \<Rightarrow> (close c2, Inr updated_printer)))"

definition delete_printer :: "db \<Rightarrow> int \<Rightarrow> db \<times> (error + string)" where
  "delete_printer s pid =
     (let c0 = get_db s
      in case execute (delete_printers pid) c0 of
           Inl e \<Rightarrow> (close c0, Inl e)
         | Inr c1 \<Rightarrow> (close (commit c1), Inr ''Printer deleted successfully''))"

subsection \<open>Transactions\<close>

text \<open>
  The total is computed first.  The insert is committed; for a \<^verbatim>\<open>'sale'\<close> the
  quantity of the item is then decremented and committed on its own.
\<close>

definition create_transaction ::
    "string \<Rightarrow> db \<Rightarrow> TransactionCreate \<Rightarrow> db \<times> (error + transaction_result)" where
  "create_transaction now s transaction =
     (let c0 = get_db s
      in case py_times (transaction_quantity transaction)
                (transaction_price_per_unit transaction) of
           Inl e \<Rightarrow> (close c0, Inl e)
         | Inr total_amount \<Rightarrow>
      (case execute (insert_transactions
                \<lparr>t_item_id = transaction_item_id transaction,
                 t_location_id = transaction_location_id transaction,
                 t_transaction_type = transaction_transaction_type transaction,
                 t_quantity = transaction_quantity transaction,
                 t_price_per_unit = transaction_price_per_unit transaction,
                 t_total_amount = total_amount,
                 t_payment_status = transaction_payment_status transaction,
                 t_payment_date = transaction_payment_date transaction,
                 t_notes = transaction_notes transaction, t_created_at = now\<rparr>) c0 of
           Inl e \<Rightarrow> (close c0, Inl e)
         | Inr c1 \<Rightarrow>
             (let c2 = commit c1;
                  new_id = seq (transactions (pending c2))
              in case (if transaction_transaction_type transaction = ''sale''
                       then map_sum id commit
                              (execute (decrement_quantity (transaction_quantity transaction)
                                          (transaction_item_id transaction)) c2)
                       else Inr c2) of
                   Inl e \<Rightarrow> (close c2, Inl e)
                 | Inr c3 \<Rightarrow>
                     (case select_transaction (pending c3) new_id of
                        None \<Rightarrow> (close c3, Inl TypeError)
                      | Some new_trans \<Rightarrow> (close c3, Inr new_trans)))))"

subsection \<open>Low stock report\<close>

text \<open>
  \<^verbatim>\<open>WHERE ii.quantity < ii.min_stock ORDER BY ii.quantity ASC\<close>; SQLite compares
  an \<^verbatim>\<open>INTEGER\<close> and a \<^verbatim>\<open>REAL\<close> by their values.  Rows of equal quantity stay in
  table order.
\<close>

definition get_low_stock_report :: "db \<Rightarrow> low_stock_result list" where
  "get_low_stock_report d =
     map (\<lambda>(k, r).
            \<lparr>low_id = k, low_ii = r,
             low_category_name = map_option c_name (select_by_id (categories d) (ii_category_id r)),
             low_location_name = map_option l_name (select_by_id (locations d) (ii_location_id r)),
             low_total_value = Times (ii_quantity r) (ii_price r)\<rparr>)
       (sort_key (ii_quantity \<circ> snd)
          (filter (\<lambda>(k, r). ii_quantity r < ii_min_stock r) (rows (inventory_items d))))"

section \<open>The seeded database and the states the handlers reach\<close>

definition empty_db :: db where
  "empty_db =
     \<lparr>users = empty_table, locations = empty_table, categories = empty_table,
      inventory_items = empty_table, printers = empty_table, transactions = empty_table,
      quantity_real = {}\<rparr>"

fun execute_all :: "(db \<Rightarrow> error + db) list \<Rightarrow> conn \<Rightarrow> error + conn" where
  "execute_all [] c = Inr c"
| "execute_all (stmt # stmts) c =
     (case execute stmt c of Inl e \<Rightarrow> Inl e | Inr c' \<Rightarrow> execute_all stmts c')"

text \<open>The rows \<^verbatim>\<open>setup_database.py\<close> inserts, in its order.\<close>

definition seed_users :: "string \<Rightarrow> users_row list" where
  "seed_users now =
     [\<lparr>u_username = ''admin'', u_password = ''admin123'', u_email = ''admin@ims.com'',
       u_role = ''Admin'', u_created_at = now\<rparr>,
      \<lparr>u_username = ''manager'', u_password = ''manager123'', u_email = ''manager@ims.com'',
       u_role = ''Manager'', u_created_at = now\<rparr>]"

definition seed_categories :: "string \<Rightarrow> categories_row list" where
  "seed_categories now =
     map (\<lambda>(name, desc). \<lparr>c_name = name, c_description = Some desc, c_created_at = now\<rparr>)
       [(''Toner'', ''Toner cartridges for printers''),
        (''Paper'', ''Printing paper and materials''),
        (''Ink'', ''Ink cartridges''),
        (''Supplies'', ''General office supplies'')]"

definition seed_locations :: "string \<Rightarrow> locations_row list" where
  "seed_locations now =
     map (\<lambda>(name, address). \<lparr>l_name = name, l_address = address, l_created_at = now\<rparr>)
       [(''Main School'', ''123 Education Street, District A''),
        (''Branch School A'', ''456 Learning Avenue, District B''),
        (''Branch School B'', ''789 Knowledge Boulevard, District C''),
        (''Central Office'', ''321 Administration Lane, Downtown'')]"

definition seed_printers :: "string \<Rightarrow> printers_row list" where
  "seed_printers now =
     map (\<lambda>(model, serial, loc_id, status, supplies).
            \<lparr>p_model = model, p_serial_number = serial, p_location_id = loc_id,
             p_status = status, p_supplies = Some supplies, p_created_at = now\<rparr>)
       [(''HP LaserJet Pro MFP M428fdw'', ''SN-HP-001'', 1, ''Active'', ''Toner, Paper''),
        (''Canon imagePRESS C165'', ''SN-CN-001'', 2, ''Active'', ''Toner, Ink''),
        (''Xerox VersaLink C405'', ''SN-XR-001'', 3, ''Maintenance'', ''Toner''),
        (''Ricoh MP C3004ex'', ''SN-RC-001'', 1, ''Active'', ''Toner, Paper, Ink''),
        (''Brother MFC-L8900CDW'', ''SN-BR-001'', 4, ''Active'', ''Toner, Paper''),
        (''Epson WorkForce Pro WF-C5790'', ''SN-EP-001'', 2, ''Active'', ''Ink, Paper'')]"

definition seed_items :: "string \<Rightarrow> inventory_items_row list" where
  "seed_items now =
     map (\<lambda>(name, sku, cat_id, qty, min_stock, price, loc_id, printer_id, status).
            \<lparr>ii_name = name, ii_sku = sku, ii_category_id = cat_id, ii_quantity = qty,
             ii_min_stock = min_stock, ii_price = Finite price, ii_location_id = loc_id,
             ii_printer_id = Some printer_id, ii_status = status, ii_created_at = now\<rparr>)
       [(''Toner Cartridge Black HP 305A'', ''TCB-001'', 1, 150, 50, 4599 / 100, 1, 1, ''In Stock''),
        (''Toner Cartridge Color Canon 046'', ''TCC-001'', 1, 45, 50, 5599 / 100, 2, 2, ''Low Stock''),
        (''Paper A4 500 sheets Premium'', ''PA4-500'', 2, 500, 200, 599 / 100, 1, 1, ''In Stock''),
        (''Ink Cartridge Epson 603XL'', ''IC-001'', 3, 20, 30, 2550 / 100, 3, 3, ''Low Stock''),
        (''Toner Cartridge Brother TN-2420'', ''TCB-002'', 1, 80, 40, 4299 / 100, 4, 5, ''In Stock''),
        (''Paper A4 80gsm 2500 sheets'', ''PA4-2500'', 2, 300, 150, 2299 / 100, 1, 4, ''In Stock''),
        (''Ink Cartridge HP 302XL Black'', ''IC-002'', 3, 35, 25, 2999 / 100, 2, 6, ''In Stock''),
        (''Toner Cartridge Xerox 106R03623'', ''TCX-001'', 1, 15, 30, 6899 / 100, 3, 3, ''Low Stock'')]"

definition seed_transactions :: "string \<Rightarrow> transactions_row list" where
  "seed_transactions now =
     map (\<lambda>(item_id, loc_id, trans_type, qty, price, total_amount, status, pay_date, notes).
            \<lparr>t_item_id = item_id, t_location_id = loc_id, t_transaction_type = trans_type,
             t_quantity = qty, t_price_per_unit = Finite price,
             t_total_amount = Real (Finite total_amount),
             t_payment_status = status, t_payment_date = pay_date, t_notes = Some notes,
             t_created_at = now\<rparr>)
       [(1, 1, ''sale'', 50, 4599 / 100, 229950 / 100, ''Pending'', None, ''Delivered to Main School''),
        (2, 2, ''sale'', 30, 5599 / 100, 167970 / 100, ''Pending'', None, ''Delivered to Branch A''),
        (3, 1, ''sale'', 100, 599 / 100, 59900 / 100, ''Paid'', Some ''2024-01-15'',
           ''Bulk order for Main School''),
        (4, 3, ''sale'', 15, 2550 / 100, 38250 / 100, ''Pending'', None, ''Emergency order''),
        (5, 4, ''sale'', 40, 4299 / 100, 171960 / 100, ''Pending'', None, ''Monthly supplies'')]"

text \<open>
  \<^verbatim>\<open>setup_database\<close>: the inserts run on one connection and are committed together;
  an \<^verbatim>\<open>IntegrityError\<close> (the data is there already) skips the commit.
\<close>

definition setup_database :: "string \<Rightarrow> db \<Rightarrow> db" where
  "setup_database now s =
     (let c0 = get_db s
      in case execute_all
                (map insert_users (seed_users now) @
                 map insert_categories (seed_categories now) @
                 map insert_locations (seed_locations now) @
                 map insert_printers (seed_printers now) @
                 map insert_inventory_items (seed_items now) @
                 map insert_transactions (seed_transactions now)) c0 of
           Inl e \<Rightarrow> close c0
         | Inr c1 \<Rightarrow> close (commit c1))"

text \<open>
  The stored databases the backend can be in: the seeded one, and what a handler that
  writes leaves behind, whether it returns or raises.
\<close>

inductive reachable :: "db \<Rightarrow> bool" where
  seeded: "reachable (setup_database now empty_db)"
| register: "reachable s \<Longrightarrow> reachable (fst (register now s user))"
| create_category: "reachable s \<Longrightarrow> reachable (fst (create_category now s category))"
| create_inventory_item: "reachable s \<Longrightarrow> reachable (fst (create_inventory_item now s item))"
| update_inventory_item: "reachable s \<Longrightarrow> reachable (fst (update_inventory_item s item_id item))"
| delete_inventory_item: "reachable s \<Longrightarrow> reachable (fst (delete_inventory_item s item_id))"
| create_location: "reachable s \<Longrightarrow> reachable (fst (create_location now s location))"
| update_location: "reachable s \<Longrightarrow> reachable (fst (update_location s location_id location))"
| delete_location: "reachable s \<Longrightarrow> reachable (fst (delete_location s location_id))"
| create_printer: "reachable s \<Longrightarrow> reachable (fst (create_printer now s printer))"
| update_printer: "reachable s \<Longrightarrow> reachable (fst (update_printer s pid printer))"
| delete_printer: "reachable s \<Longrightarrow> reachable (fst (delete_printer s pid))"
| create_transaction: "reachable s \<Longrightarrow> reachable (fst (create_transaction now s transaction))"

section \<open>Concrete inputs\<close>

text \<open>
  A freshly set up database and some requests against it, for the instances the
  statements below are checked on.
\<close>

definition fresh_install :: db where
  "fresh_install = setup_database ''2024-01-15 10:00:00'' empty_db"

definition sale :: "int \<Rightarrow> int \<Rightarrow> TransactionCreate" where
  "sale item_id quantity =
     \<lparr>transaction_item_id = item_id, transaction_location_id = 1,
      transaction_transaction_type = ''sale'', transaction_quantity = quantity,
      transaction_price_per_unit = Finite (4599 / 100), transaction_payment_status = ''Pending'',
      transaction_payment_date = None, transaction_notes = None\<rparr>"

definition stock_item :: "string \<Rightarrow> int \<Rightarrow> int \<Rightarrow> InventoryItemCreate" where
  "stock_item sku quantity min_stock =
     \<lparr>item_name = ''Drum Unit'', item_sku = sku, item_category_id = 1,
      item_quantity = quantity, item_min_stock = min_stock, item_price = Finite (1999 / 100),
      item_location_id = 1\<rparr>"

definition new_user :: "string \<Rightarrow> string \<Rightarrow> UserRegister" where
  "new_user username email =
     \<lparr>user_username = username, user_password = ''secret'', user_email = email,
      user_role = ''Manager''\<rparr>"

definition new_location :: "string \<Rightarrow> LocationCreate" where
  "new_location name = \<lparr>location_name = name, location_address = ''1 Depot Road''\<rparr>"

section \<open>Facts about tables and handlers\<close>

lemmas conn_defs = get_db_def commit_def close_def execute_def

subsection \<open>Row ids, lookups and updates\<close>

lemma fold_max_lower: "(a::int) \<le> fold max ks a"
  by (induction ks arbitrary: a) (auto intro: order_trans [OF max.cobounded2])

lemma fold_max_upper: "k \<in> set ks \<Longrightarrow> (k::int) \<le> fold max ks a"
proof (induction ks arbitrary: a)
  case Nil
  then show ?case by simp
next
  case (Cons x ks)
  show ?case
  proof (cases "k = x")
    case True
    have "x \<le> max x a" by simp
    also have "\<dots> \<le> fold max ks (max x a)" by (rule fold_max_lower)
    finally show ?thesis using True by simp
  next
    case False
    with Cons show ?thesis by simp
  qed
qed

lemma next_rowid_fresh: "(k, r) \<in> set (rows t) \<Longrightarrow> k < next_rowid t"
proof -
  assume "(k, r) \<in> set (rows t)"
  then have "k \<in> set (map fst (rows t))" by force
  then have "k \<le> fold max (map fst (rows t)) 0" by (rule fold_max_upper)
  then show ?thesis by (simp add: next_rowid_def)
qed

lemma next_rowid_absent: "next_rowid t \<notin> set (map fst (rows t))"
  using next_rowid_fresh [of "next_rowid t" _ t] by auto

lemma insert_row_Inr:
  "insert_row r t = Inr t' \<longleftrightarrow>
     next_rowid t \<le> 2 ^ 63 - 1 \<and>
     t' = t\<lparr>rows := rows t @ [(next_rowid t, r)], seq := next_rowid t\<rparr>"
  by (auto simp: insert_row_def Let_def)

lemma insert_row_Inl:
  "insert_row r t = Inl e \<longleftrightarrow> 2 ^ 63 - 1 < next_rowid t \<and> e = OperationalError"
  by (auto simp: insert_row_def Let_def)

lemma select_by_id_None: "select_by_id t i = None \<longleftrightarrow> i \<notin> set (map fst (rows t))"
  by (simp add: select_by_id_def map_of_eq_None_iff)

lemma select_by_id_appended:
  "select_by_id (t\<lparr>rows := rows t @ [(next_rowid t, r)], seq := next_rowid t\<rparr>) (next_rowid t)
     = Some r"
proof -
  have "map_of (rows t) (next_rowid t) = None"
    using next_rowid_absent [of t] by (simp add: map_of_eq_None_iff)
  then show ?thesis
    by (simp add: select_by_id_def map_add_def)
qed

lemma select_by_id_update_by_id:
  "select_by_id (update_by_id f i t) k =
     (if k = i then map_option f (select_by_id t k) else select_by_id t k)"
proof -
  have "map_of (map (\<lambda>(k, r). if k = i then (k, f r) else (k, r)) xs) k =
          (if k = i then map_option f (map_of xs k) else map_of xs k)" for xs
    by (induction xs) auto
  then show ?thesis by (simp add: select_by_id_def update_by_id_def)
qed

lemma select_by_id_Some_nth:
  "select_by_id t i = Some r \<Longrightarrow> \<exists>n < length (rows t). rows t ! n = (i, r)"
  unfolding select_by_id_def by (metis in_set_conv_nth map_of_SomeD)

lemma update_by_id_absent: "i \<notin> set (map fst (rows t)) \<Longrightarrow> update_by_id f i t = t"
proof -
  assume a: "i \<notin> set (map fst (rows t))"
  have "map (\<lambda>(k, r). if k = i then (k, f r) else (k, r)) (rows t) = rows t"
    using a by (intro map_idI) force
  then show ?thesis by (simp add: update_by_id_def)
qed

lemma delete_by_id_absent: "i \<notin> set (map fst (rows t)) \<Longrightarrow> delete_by_id i t = t"
proof -
  assume a: "i \<notin> set (map fst (rows t))"
  have "filter (\<lambda>(k, r). k \<noteq> i) (rows t) = rows t"
    using a by (intro filter_True) force
  then show ?thesis by (simp add: delete_by_id_def)
qed

lemma update_conflict_absent: "i \<notin> set (map fst (rows t)) \<Longrightarrow> \<not> update_conflict col v i t"
  by (simp add: update_conflict_def)

lemma rows_update_by_id_nth:
  "n < length (rows t) \<Longrightarrow>
   rows (update_by_id f i t) ! n =
     (if fst (rows t ! n) = i then (i, f (snd (rows t ! n))) else rows t ! n)"
  by (simp add: update_by_id_def case_prod_beta)

lemma keys_update_by_id: "map fst (rows (update_by_id f i t)) = map fst (rows t)"
  by (simp add: update_by_id_def case_prod_beta comp_def)

subsection \<open>The seeded tables\<close>

lemmas seed_defs =
  setup_database_def conn_defs empty_db_def empty_table_def seed_users_def
  seed_categories_def seed_locations_def seed_printers_def seed_items_def
  seed_transactions_def insert_users_def insert_categories_def insert_locations_def
  insert_printers_def insert_inventory_items_def insert_transactions_def
  insert_conflict_def insert_row_def next_rowid_def bindable_def

lemma seeded_inventory_items:
  "inventory_items (setup_database now empty_db) =
     \<lparr>rows = zip [1, 2, 3, 4, 5, 6, 7, 8] (seed_items now), seq = 8\<rparr>"
  by (simp add: seed_defs)

lemma seeded_quantity_real: "quantity_real (setup_database now empty_db) = {}"
  by (simp add: seed_defs)

lemma seeded_users:
  "users (setup_database now empty_db) = \<lparr>rows = zip [1, 2] (seed_users now), seq = 2\<rparr>"
  by (simp add: seed_defs)

lemma seeded_locations:
  "locations (setup_database now empty_db) =
     \<lparr>rows = zip [1, 2, 3, 4] (seed_locations now), seq = 4\<rparr>"
  by (simp add: seed_defs)

lemma seeded_transactions:
  "transactions (setup_database now empty_db) =
     \<lparr>rows = zip [1, 2, 3, 4, 5] (seed_transactions now), seq = 5\<rparr>"
  by (simp add: seed_defs)

subsection \<open>What the inventory handlers return\<close>

lemma create_inventory_item_refused:
  "list_all bindable
     [item_category_id item, item_quantity item, item_min_stock item, item_location_id item] \<Longrightarrow>
   next_rowid (inventory_items s) \<le> 2 ^ 63 - 1 \<Longrightarrow>
   insert_conflict ii_sku (item_sku item) (inventory_items s) \<or> item_price item = NaN \<Longrightarrow>
   create_inventory_item now s item = (s, Inl (HTTPException 400 ''SKU already exists''))"
  by (auto simp: create_inventory_item_def conn_defs insert_inventory_items_def Let_def
      insert_row_def)

lemma create_inventory_item_stored:
  "list_all bindable
     [item_category_id item, item_quantity item, item_min_stock item, item_location_id item] \<Longrightarrow>
   next_rowid (inventory_items s) \<le> 2 ^ 63 - 1 \<Longrightarrow>
   \<not> insert_conflict ii_sku (item_sku item) (inventory_items s) \<Longrightarrow>
   item_price item \<noteq> NaN \<Longrightarrow>
   \<exists>new_item.
     create_inventory_item now s item =
       (s\<lparr>inventory_items :=
            (inventory_items s)
              \<lparr>rows := rows (inventory_items s)
                         @ [(next_rowid (inventory_items s), result_ii new_item)],
               seq := next_rowid (inventory_items s)\<rparr>,
          quantity_real := quantity_real s - {next_rowid (inventory_items s)}\<rparr>,
        Inr new_item)
     \<and> result_id new_item = next_rowid (inventory_items s)
     \<and> result_ii new_item =
         \<lparr>ii_name = item_name item, ii_sku = item_sku item,
          ii_category_id = item_category_id item, ii_quantity = item_quantity item,
          ii_min_stock = item_min_stock item, ii_price = item_price item,
          ii_location_id = item_location_id item, ii_printer_id = None,
          ii_status = (if item_quantity item < item_min_stock item
                       then ''Low Stock'' else ''In Stock''),
          ii_created_at = now\<rparr>"
  by (simp add: create_inventory_item_def conn_defs insert_inventory_items_def Let_def
      insert_row_def select_inventory_item_def select_by_id_appended)

lemma create_inventory_item_Inr:
  "snd (create_inventory_item now s item) = Inr new_item \<Longrightarrow>
   list_all bindable
     [item_category_id item, item_quantity item, item_min_stock item, item_location_id item]
   \<and> next_rowid (inventory_items s) \<le> 2 ^ 63 - 1
   \<and> \<not> insert_conflict ii_sku (item_sku item) (inventory_items s)
   \<and> item_price item \<noteq> NaN"
  by (auto simp: create_inventory_item_def conn_defs insert_inventory_items_def Let_def
      insert_row_def split: if_splits)

lemma create_inventory_item_error:
  "snd (create_inventory_item now s item) = Inl e \<Longrightarrow> fst (create_inventory_item now s item) = s"
  by (auto simp: create_inventory_item_def conn_defs insert_inventory_items_def Let_def
      insert_row_def select_inventory_item_def select_by_id_appended split: if_splits)

lemma update_inventory_item_overflow:
  "\<not> list_all bindable
     [item_category_id item, item_quantity item, item_min_stock item, item_location_id item, i] \<Longrightarrow>
   update_inventory_item s i item = (s, Inl OverflowError)"
  by (simp add: update_inventory_item_def conn_defs update_inventory_items_def Let_def)

lemma update_inventory_item_conflict:
  "list_all bindable
     [item_category_id item, item_quantity item, item_min_stock item, item_location_id item, i] \<Longrightarrow>
   update_conflict ii_sku (item_sku item) i (inventory_items s)
     \<or> i \<in> set (map fst (rows (inventory_items s))) \<and> item_price item = NaN \<Longrightarrow>
   update_inventory_item s i item = (s, Inl IntegrityError)"
  by (auto simp: update_inventory_item_def conn_defs update_inventory_items_def Let_def)

lemma update_inventory_item_absent:
  "list_all bindable
     [item_category_id item, item_quantity item, item_min_stock item, item_location_id item, i] \<Longrightarrow>
   i \<notin> set (map fst (rows (inventory_items s))) \<Longrightarrow>
   update_inventory_item s i item = (s, Inl (HTTPException 404 ''Item not found''))"
  by (simp add: update_inventory_item_def conn_defs update_inventory_items_def Let_def
      update_conflict_absent update_by_id_absent select_inventory_item_def
      select_by_id_None [THEN iffD2])

lemma update_inventory_item_present:
  "list_all bindable
     [item_category_id item, item_quantity item, item_min_stock item, item_location_id item, i] \<Longrightarrow>
   \<not> update_conflict ii_sku (item_sku item) i (inventory_items s) \<Longrightarrow>
   item_price item \<noteq> NaN \<Longrightarrow>
   select_by_id (inventory_items s) i = Some r \<Longrightarrow>
   update_inventory_item s i item =
       (s\<lparr>inventory_items :=
            update_by_id
              (\<lambda>r. r\<lparr>ii_name := item_name item, ii_sku := item_sku item,
                  ii_category_id := item_category_id item, ii_quantity := item_quantity item,
                  ii_min_stock := item_min_stock item, ii_price := item_price item,
                  ii_location_id := item_location_id item,
                  ii_status := (if item_quantity item < item_min_stock item
                                then ''Low Stock'' else ''In Stock'')\<rparr>)
              i (inventory_items s),
          quantity_real := quantity_real s - {i}\<rparr>,
        Inr \<lparr>result_id = i,
             result_ii = r\<lparr>ii_name := item_name item, ii_sku := item_sku item,
                  ii_category_id := item_category_id item, ii_quantity := item_quantity item,
                  ii_min_stock := item_min_stock item, ii_price := item_price item,
                  ii_location_id := item_location_id item,
                  ii_status := (if item_quantity item < item_min_stock item
                                then ''Low Stock'' else ''In Stock'')\<rparr>,
             result_category_name =
               map_option c_name (select_by_id (categories s) (item_category_id item)),
             result_location_name =
               map_option l_name (select_by_id (locations s) (item_location_id item)),
             result_total_price = Times (item_quantity item) (item_price item)\<rparr>)"
proof -
  assume b: "list_all bindable
     [item_category_id item, item_quantity item, item_min_stock item, item_location_id item, i]"
    and c: "\<not> update_conflict ii_sku (item_sku item) i (inventory_items s)"
    and p: "item_price item \<noteq> NaN"
    and r: "select_by_id (inventory_items s) i = Some r"
  from r have "i \<in> set (map fst (rows (inventory_items s)))"
    using select_by_id_None [of "inventory_items s" i] by auto
  with b c p r show ?thesis
    by (simp add: update_inventory_item_def conn_defs update_inventory_items_def Let_def
      select_inventory_item_def select_by_id_update_by_id)
qed

lemma update_inventory_item_Inr:
  "snd (update_inventory_item s i item) = Inr updated_item \<Longrightarrow>
   list_all bindable
     [item_category_id item, item_quantity item, item_min_stock item, item_location_id item, i]
   \<and> \<not> update_conflict ii_sku (item_sku item) i (inventory_items s)
   \<and> item_price item \<noteq> NaN
   \<and> (\<exists>r. select_by_id (inventory_items s) i = Some r)"
proof -
  assume ok: "snd (update_inventory_item s i item) = Inr updated_item"
  have b: "list_all bindable
     [item_category_id item, item_quantity item, item_min_stock item, item_location_id item, i]"
  proof (rule ccontr)
    assume "\<not> ?thesis"
    from update_inventory_item_overflow [OF this] ok show False by simp
  qed
  have present: "i \<in> set (map fst (rows (inventory_items s)))"
  proof (rule ccontr)
    assume "i \<notin> set (map fst (rows (inventory_items s)))"
    from update_inventory_item_absent [OF b this] ok show False by simp
  qed
  have c: "\<not> (update_conflict ii_sku (item_sku item) i (inventory_items s)
     \<or> i \<in> set (map fst (rows (inventory_items s))) \<and> item_price item = NaN)"
  proof
    assume "update_conflict ii_sku (item_sku item) i (inventory_items s)
     \<or> i \<in> set (map fst (rows (inventory_items s))) \<and> item_price item = NaN"
    from update_inventory_item_conflict [OF b this] ok show False by simp
  qed
  from present obtain r where "select_by_id (inventory_items s) i = Some r"
    using select_by_id_None [of "inventory_items s" i] by auto
  with b c present show ?thesis by blast
qed

lemma update_inventory_item_error:
  "snd (update_inventory_item s i item) = Inl e \<Longrightarrow> fst (update_inventory_item s i item) = s"
proof -
  assume err: "snd (update_inventory_item s i item) = Inl e"
  show ?thesis
  proof (cases "list_all bindable
     [item_category_id item, item_quantity item, item_min_stock item, item_location_id item, i]")
    case False
    then show ?thesis by (simp add: update_inventory_item_overflow)
  next
    case b: True
    show ?thesis
    proof (cases "update_conflict ii_sku (item_sku item) i (inventory_items s)
       \<or> i \<in> set (map fst (rows (inventory_items s))) \<and> item_price item = NaN")
      case True
      from update_inventory_item_conflict [OF b True] show ?thesis by simp
    next
      case c: False
      show ?thesis
      proof (cases "select_by_id (inventory_items s) i")
        case None
        then have "i \<notin> set (map fst (rows (inventory_items s)))"
          by (simp add: select_by_id_None)
        from update_inventory_item_absent [OF b this] show ?thesis by simp
      next
        case (Some r)
        then have "i \<in> set (map fst (rows (inventory_items s)))"
          using select_by_id_None [of "inventory_items s" i] by auto
        with c have "\<not> update_conflict ii_sku (item_sku item) i (inventory_items s)"
          "item_price item \<noteq> NaN" by auto
        from update_inventory_item_present [OF b this Some] err show ?thesis by simp
      qed
    qed
  qed
qed

subsection \<open>The seeded items\<close>

lemma fresh_install_items:
  "rows (inventory_items fresh_install) =
     zip [1, 2, 3, 4, 5, 6, 7, 8] (seed_items ''2024-01-15 10:00:00'')"
  by (simp add: fresh_install_def seeded_inventory_items)

lemma fresh_install_item_ids:
  "map fst (rows (inventory_items fresh_install)) = [1, 2, 3, 4, 5, 6, 7, 8]"
  by (simp add: fresh_install_items seed_items_def)

lemma fresh_install_quantity_real: "quantity_real fresh_install = {}"
  by (simp add: fresh_install_def seeded_quantity_real)

lemma fresh_install_next_transaction: "next_rowid (transactions fresh_install) = 6"
  by (simp add: fresh_install_def seeded_transactions next_rowid_def seed_transactions_def)

subsection \<open>What a transaction does\<close>

lemma py_times_bindable: "bindable q \<Longrightarrow> py_times q x = Inr (Times q x)"
  by (simp add: py_times_def bindable_def abs_if)

lemma create_transaction_returns:
  assumes "list_all bindable
      [transaction_item_id transaction, transaction_location_id transaction,
       transaction_quantity transaction]"
    and "next_rowid (transactions s) \<le> 2 ^ 63 - 1"
    and "transaction_price_per_unit transaction \<noteq> NaN"
    and "\<not> is_nan (Times (transaction_quantity transaction)
                 (transaction_price_per_unit transaction))"
  shows "\<exists>new_trans.
     snd (create_transaction now s transaction) = Inr new_trans
     \<and> trans_id new_trans = next_rowid (transactions s)
     \<and> trans_t new_trans =
         \<lparr>t_item_id = transaction_item_id transaction,
          t_location_id = transaction_location_id transaction,
          t_transaction_type = transaction_transaction_type transaction,
          t_quantity = transaction_quantity transaction,
          t_price_per_unit = transaction_price_per_unit transaction,
          t_total_amount = Times (transaction_quantity transaction)
                             (transaction_price_per_unit transaction),
          t_payment_status = transaction_payment_status transaction,
          t_payment_date = transaction_payment_date transaction,
          t_notes = transaction_notes transaction, t_created_at = now\<rparr>
     \<and> transactions (fst (create_transaction now s transaction)) =
         (transactions s)
           \<lparr>rows := rows (transactions s) @ [(next_rowid (transactions s), trans_t new_trans)],
            seq := next_rowid (transactions s)\<rparr>
     \<and> inventory_items (fst (create_transaction now s transaction)) =
         (if transaction_transaction_type transaction = ''sale''
          then update_by_id
                 (\<lambda>r. r\<lparr>ii_quantity :=
                    snd (sql_subtract (transaction_item_id transaction \<in> quantity_real s,
                                       ii_quantity r) (transaction_quantity transaction))\<rparr>)
                 (transaction_item_id transaction) (inventory_items s)
          else inventory_items s)"
  using assms
  by (simp add: create_transaction_def conn_defs insert_transactions_def py_times_bindable
      decrement_quantity_def Let_def select_transaction_def insert_row_def
      select_by_id_appended)

lemma create_transaction_Inr:
  "snd (create_transaction now s transaction) = Inr new_trans \<Longrightarrow>
   list_all bindable
      [transaction_item_id transaction, transaction_location_id transaction,
       transaction_quantity transaction]
   \<and> next_rowid (transactions s) \<le> 2 ^ 63 - 1
   \<and> transaction_price_per_unit transaction \<noteq> NaN
   \<and> \<not> is_nan (Times (transaction_quantity transaction)
                 (transaction_price_per_unit transaction))"
  by (auto simp: create_transaction_def conn_defs insert_transactions_def py_times_def
      Let_def insert_row_def split: if_splits)

lemma create_transaction_error:
  "snd (create_transaction now s transaction) = Inl e \<Longrightarrow>
   fst (create_transaction now s transaction) = s"
  by (auto simp: create_transaction_def conn_defs insert_transactions_def py_times_def
      decrement_quantity_def Let_def select_transaction_def insert_row_def
      select_by_id_appended split: if_splits)

lemma inventory_items_create_transaction:
  "inventory_items (fst (create_transaction now s transaction)) =
     (if (\<exists>new_trans. snd (create_transaction now s transaction) = Inr new_trans)
         \<and> transaction_transaction_type transaction = ''sale''
      then update_by_id
             (\<lambda>r. r\<lparr>ii_quantity :=
                snd (sql_subtract (transaction_item_id transaction \<in> quantity_real s,
                                   ii_quantity r) (transaction_quantity transaction))\<rparr>)
             (transaction_item_id transaction) (inventory_items s)
      else inventory_items s)"
proof (cases "snd (create_transaction now s transaction)")
  case (Inl e)
  from create_transaction_error [OF Inl] Inl show ?thesis by simp
next
  case (Inr new_trans)
  from create_transaction_Inr [OF Inr]
  have "list_all bindable
      [transaction_item_id transaction, transaction_location_id transaction,
       transaction_quantity transaction]"
    "next_rowid (transactions s) \<le> 2 ^ 63 - 1"
    "transaction_price_per_unit transaction \<noteq> NaN"
    "\<not> is_nan (Times (transaction_quantity transaction)
                 (transaction_price_per_unit transaction))"
    by blast+
  from create_transaction_returns [OF this, of now] Inr show ?thesis by auto
qed

lemma sql_subtract_integer:
  "bindable (v - q) \<Longrightarrow> sql_subtract (False, v) q = (False, v - q)"
  by (simp add: sql_subtract_def)

lemma fresh_install_sale:
  "bindable i \<Longrightarrow> bindable q \<Longrightarrow>
   (\<exists>new_trans. snd (create_transaction now fresh_install (sale i q)) = Inr new_trans)
   \<and> inventory_items (fst (create_transaction now fresh_install (sale i q))) =
       update_by_id (\<lambda>r. r\<lparr>ii_quantity := snd (sql_subtract (False, ii_quantity r) q)\<rparr>)
         i (inventory_items fresh_install)"
proof -
  assume i: "bindable i" and q: "bindable q"
  have "list_all bindable
      [transaction_item_id (sale i q), transaction_location_id (sale i q),
       transaction_quantity (sale i q)]"
    using i q by (simp add: sale_def bindable_def)
  moreover have "next_rowid (transactions fresh_install) \<le> 2 ^ 63 - 1"
    by (simp add: fresh_install_next_transaction)
  moreover have "transaction_price_per_unit (sale i q) \<noteq> NaN"
    by (simp add: sale_def)
  moreover have "\<not> is_nan (Times (transaction_quantity (sale i q))
                 (transaction_price_per_unit (sale i q)))"
    by (simp add: sale_def)
  ultimately have "\<exists>new_trans.
     snd (create_transaction now fresh_install (sale i q)) = Inr new_trans
     \<and> inventory_items (fst (create_transaction now fresh_install (sale i q))) =
         update_by_id
           (\<lambda>r. r\<lparr>ii_quantity :=
              snd (sql_subtract (i \<in> quantity_real fresh_install, ii_quantity r) q)\<rparr>)
           i (inventory_items fresh_install)"
    using create_transaction_returns [of "sale i q" fresh_install now]
    by (auto simp: sale_def)
  then show ?thesis by (auto simp: fresh_install_quantity_real)
qed

lemma oversold:
  "ii_quantity (snd (rows (inventory_items fresh_install) ! 0)) = 150 \<and>
   ii_quantity (snd (rows (inventory_items
      (fst (create_transaction now fresh_install (sale 1 200)))) ! 0)) = - 50"
proof -
  have "bindable 1" "bindable 200" by (simp_all add: bindable_def)
  from fresh_install_sale [OF this, of now] show ?thesis
    by (simp add: fresh_install_def seeded_inventory_items seed_items_def update_by_id_def
        sql_subtract_def bindable_def)
qed

lemma sale_not_bindable:
  "snd (create_transaction now fresh_install (sale 1 (2 ^ 63))) = Inl OverflowError"
  by (simp add: create_transaction_def conn_defs insert_transactions_def py_times_def
      Let_def sale_def bindable_def)

section \<open>Sales and stock\<close>

text \<open>
  C1.  Recording a transaction keeps the rows of the item table and their ids in place.
  When the call returns, the type is \<^verbatim>\<open>'sale'\<close> and a row's id is the transaction's
  \<^verbatim>\<open>item_id\<close>, the quantity of the row becomes its old quantity minus the
  transaction's quantity, provided the old quantity is held as an \<^verbatim>\<open>INTEGER\<close> and
  the difference is a 64-bit signed integer; otherwise it becomes the difference of the
  two as doubles.  The quantity of every other row, of every row under any other type,
  and of every row when the call raises, stays as it was.  Nothing bounds the result
  from below: there is a sale that takes a quantity that was not negative below zero.
\<close>

theorem create_transaction_sale_decrements:
  "map fst (rows (inventory_items (fst (create_transaction now s transaction)))) =
     map fst (rows (inventory_items s))
   \<and> (\<forall>n < length (rows (inventory_items s)).
        ii_quantity (snd (rows (inventory_items (fst (create_transaction now s transaction))) ! n)) =
          (if (\<exists>new_trans. snd (create_transaction now s transaction) = Inr new_trans)
              \<and> transaction_transaction_type transaction = ''sale''
              \<and> fst (rows (inventory_items s) ! n) = transaction_item_id transaction
           then if transaction_item_id transaction \<notin> quantity_real s
                   \<and> bindable (ii_quantity (snd (rows (inventory_items s) ! n))
                                 - transaction_quantity transaction)
                then ii_quantity (snd (rows (inventory_items s) ! n))
                       - transaction_quantity transaction
                else to_double (to_double (ii_quantity (snd (rows (inventory_items s) ! n)))
                                  - to_double (transaction_quantity transaction))
           else ii_quantity (snd (rows (inventory_items s) ! n))))
   \<and> (\<exists>now' s' transaction' n.
         n < length (rows (inventory_items s')) \<and>
         0 \<le> ii_quantity (snd (rows (inventory_items s') ! n)) \<and>
         ii_quantity (snd (rows (inventory_items
            (fst (create_transaction now' s' transaction'))) ! n)) < 0)"
proof (intro conjI allI impI)
  show "map fst (rows (inventory_items (fst (create_transaction now s transaction)))) =
     map fst (rows (inventory_items s))"
    by (simp add: inventory_items_create_transaction keys_update_by_id)
next
  fix n assume "n < length (rows (inventory_items s))"
  then show "ii_quantity (snd (rows (inventory_items (fst (create_transaction now s transaction))) ! n)) =
          (if (\<exists>new_trans. snd (create_transaction now s transaction) = Inr new_trans)
              \<and> transaction_transaction_type transaction = ''sale''
              \<and> fst (rows (inventory_items s) ! n) = transaction_item_id transaction
           then if transaction_item_id transaction \<notin> quantity_real s
                   \<and> bindable (ii_quantity (snd (rows (inventory_items s) ! n))
                                 - transaction_quantity transaction)
                then ii_quantity (snd (rows (inventory_items s) ! n))
                       - transaction_quantity transaction
                else to_double (to_double (ii_quantity (snd (rows (inventory_items s) ! n)))
                                  - to_double (transaction_quantity transaction))
           else ii_quantity (snd (rows (inventory_items s) ! n)))"
    by (cases "\<exists>new_trans. snd (create_transaction now s transaction) = Inr new_trans")
      (simp_all add: inventory_items_create_transaction rows_update_by_id_nth sql_subtract_def
        Let_def)
next
  have "0 < length (rows (inventory_items fresh_install))"
    by (simp add: fresh_install_items seed_items_def)
  with oversold [of "[]"] show "\<exists>now' s' transaction' n.
         n < length (rows (inventory_items s')) \<and>
         0 \<le> ii_quantity (snd (rows (inventory_items s') ! n)) \<and>
         ii_quantity (snd (rows (inventory_items
            (fst (create_transaction now' s' transaction'))) ! n)) < 0"
    by (intro exI [of _ "[]"] exI [of _ fresh_install] exI [of _ 0]
        exI [of _ "sale 1 200"]) simp
qed

theorem create_transaction_sale_decrements_witness:
  "0 < length (rows (inventory_items fresh_install)) \<and>
   fst (rows (inventory_items fresh_install) ! 0) = 1 \<and>
   1 \<notin> quantity_real fresh_install \<and>
   ii_quantity (snd (rows (inventory_items fresh_install) ! 0)) = 150 \<and>
   (\<exists>new_trans. snd (create_transaction ''2024-02-01 09:30:00'' fresh_install (sale 1 10))
      = Inr new_trans) \<and>
   ii_quantity (snd (rows (inventory_items
      (fst (create_transaction ''2024-02-01 09:30:00'' fresh_install (sale 1 10)))) ! 0)) = 140"
proof -
  have len: "0 < length (rows (inventory_items fresh_install))"
    by (simp add: fresh_install_items seed_items_def)
  have row: "fst (rows (inventory_items fresh_install) ! 0) = 1"
    "ii_quantity (snd (rows (inventory_items fresh_install) ! 0)) = 150"
    by (simp_all add: fresh_install_items seed_items_def)
  have "bindable 1" "bindable 10" by (simp_all add: bindable_def)
  from fresh_install_sale [OF this, of "''2024-02-01 09:30:00''"]
  have returns: "\<exists>new_trans.
      snd (create_transaction ''2024-02-01 09:30:00'' fresh_install (sale 1 10)) = Inr new_trans"
    by blast
  have sale: "transaction_transaction_type (sale 1 10) = ''sale''"
    "transaction_item_id (sale 1 10) = 1" "transaction_quantity (sale 1 10) = 10"
    by (simp_all add: sale_def)
  from create_transaction_sale_decrements
         [of "''2024-02-01 09:30:00''" fresh_install "sale 1 10",
          THEN conjunct2, THEN conjunct1, rule_format, OF len]
  have "ii_quantity (snd (rows (inventory_items
      (fst (create_transaction ''2024-02-01 09:30:00'' fresh_install (sale 1 10)))) ! 0)) = 140"
    by (simp add: row returns sale fresh_install_quantity_real bindable_def)
  with len row returns show ?thesis by (simp add: fresh_install_quantity_real)
qed

text \<open>
  C1, as stated, fails: the claim puts no condition on the call, and a sale of
  \<open>2 ^ 63\<close> units of the seeded item 1 is refused when its quantity is bound to the
  \<^verbatim>\<open>INSERT\<close>, so the item keeps its 150 units.
\<close>

theorem create_transaction_sale_decrements_counterexample:
  "\<not> (\<forall>now s transaction n.
        n < length (rows (inventory_items s)) \<longrightarrow>
        transaction_transaction_type transaction = ''sale'' \<longrightarrow>
        fst (rows (inventory_items s) ! n) = transaction_item_id transaction \<longrightarrow>
        ii_quantity (snd (rows (inventory_items (fst (create_transaction now s transaction))) ! n)) =
          ii_quantity (snd (rows (inventory_items s) ! n)) - transaction_quantity transaction)"
proof
  assume all: "\<forall>now s transaction n.
        n < length (rows (inventory_items s)) \<longrightarrow>
        transaction_transaction_type transaction = ''sale'' \<longrightarrow>
        fst (rows (inventory_items s) ! n) = transaction_item_id transaction \<longrightarrow>
        ii_quantity (snd (rows (inventory_items (fst (create_transaction now s transaction))) ! n)) =
          ii_quantity (snd (rows (inventory_items s) ! n)) - transaction_quantity transaction"
  have len: "0 < length (rows (inventory_items fresh_install))"
    by (simp add: fresh_install_items seed_items_def)
  have row: "fst (rows (inventory_items fresh_install) ! 0) = 1"
    "ii_quantity (snd (rows (inventory_items fresh_install) ! 0)) = 150"
    by (simp_all add: fresh_install_items seed_items_def)
  have kept: "fst (create_transaction [] fresh_install (sale 1 (2 ^ 63))) = fresh_install"
    by (rule create_transaction_error [OF sale_not_bindable])
  from all [rule_format, of 0 fresh_install "sale 1 (2 ^ 63)" "[]"] len row
  have "ii_quantity (snd (rows (inventory_items
      (fst (create_transaction [] fresh_install (sale 1 (2 ^ 63))))) ! 0)) = 150 - 2 ^ 63"
    by (simp add: sale_def)
  with kept row show False by simp
qed

section \<open>Deleting an item\<close>

text \<open>
  C9.  Deleting an id that no stored item has leaves the stored database as it was.
  The call returns the success message when the id is a 64-bit signed integer; any
  other id cannot be bound to the \<^verbatim>\<open>DELETE\<close>, and the call raises
  \<^verbatim>\<open>OverflowError\<close>.
\<close>

theorem delete_inventory_item_absent:
  "item_id \<notin> set (map fst (rows (inventory_items s))) \<Longrightarrow>
   delete_inventory_item s item_id =
     (s, if bindable item_id then Inr ''Item deleted successfully'' else Inl OverflowError)"
  by (simp add: delete_inventory_item_def conn_defs delete_inventory_items_def Let_def
      delete_by_id_absent)

theorem delete_inventory_item_absent_witness:
  "999 \<notin> set (map fst (rows (inventory_items fresh_install))) \<and>
   delete_inventory_item fresh_install 999 = (fresh_install, Inr ''Item deleted successfully'')"
proof -
  have absent: "999 \<notin> set (map fst (rows (inventory_items fresh_install)))"
    by (simp add: fresh_install_item_ids)
  from delete_inventory_item_absent [OF absent] absent show ?thesis
    by (simp add: bindable_def)
qed

text \<open>
  C9, as stated, fails: no seeded item has the id \<open>2 ^ 63\<close>, and deleting it does not
  return.
\<close>

theorem delete_inventory_item_absent_counterexample:
  "\<not> (\<forall>s item_id.
        item_id \<notin> set (map fst (rows (inventory_items s))) \<longrightarrow>
        (\<exists>message. snd (delete_inventory_item s item_id) = Inr message))"
proof
  assume all: "\<forall>s item_id.
        item_id \<notin> set (map fst (rows (inventory_items s))) \<longrightarrow>
        (\<exists>message. snd (delete_inventory_item s item_id) = Inr message)"
  have "2 ^ 63 \<notin> set (map fst (rows (inventory_items fresh_install)))"
    by (simp add: fresh_install_item_ids)
  with all have "\<exists>message. snd (delete_inventory_item fresh_install (2 ^ 63)) = Inr message"
    by blast
  moreover have "snd (delete_inventory_item fresh_install (2 ^ 63)) = Inl OverflowError"
    by (simp add: delete_inventory_item_def conn_defs delete_inventory_items_def Let_def
        bindable_def)
  ultimately show False by simp
qed

section \<open>Status after a sale\<close>

lemma fresh_install_reachable: "reachable fresh_install"
  unfolding fresh_install_def by (rule reachable.seeded)

lemma stale_status:
  "ii_status (snd (rows (inventory_items
      (fst (create_transaction now fresh_install (sale 1 110)))) ! 0)) = ''In Stock'' \<and>
   ii_quantity (snd (rows (inventory_items
      (fst (create_transaction now fresh_install (sale 1 110)))) ! 0)) = 40 \<and>
   ii_min_stock (snd (rows (inventory_items
      (fst (create_transaction now fresh_install (sale 1 110)))) ! 0)) = 50"
proof -
  have "bindable 1" "bindable 110" by (simp_all add: bindable_def)
  from fresh_install_sale [OF this, of now] show ?thesis
    by (simp add: fresh_install_def seeded_inventory_items seed_items_def update_by_id_def
        sql_subtract_def bindable_def)
qed

text \<open>
  C2.  Recording a transaction changes no column of an item row but the quantity: each
  row afterwards is the row before with the new quantity put in, so the stored status is
  the one it had.  Hence quantity and status can disagree: a stored database that the
  handlers reach from the seeded one holds an item whose status is \<^verbatim>\<open>In Stock\<close>
  and whose quantity is below its \<^verbatim>\<open>min_stock\<close>.
\<close>

theorem create_transaction_keeps_other_fields:
  "(\<forall>n < length (rows (inventory_items s)).
      snd (rows (inventory_items (fst (create_transaction now s transaction))) ! n) =
        (snd (rows (inventory_items s) ! n))
          \<lparr>ii_quantity :=
             ii_quantity (snd (rows (inventory_items (fst (create_transaction now s transaction))) ! n))\<rparr>
      \<and> ii_status (snd (rows (inventory_items (fst (create_transaction now s transaction))) ! n)) =
          ii_status (snd (rows (inventory_items s) ! n)))
   \<and> (\<exists>s' n. reachable s' \<and> n < length (rows (inventory_items s')) \<and>
         ii_status (snd (rows (inventory_items s') ! n)) = ''In Stock'' \<and>
         ii_quantity (snd (rows (inventory_items s') ! n))
           < ii_min_stock (snd (rows (inventory_items s') ! n)))"
proof (intro conjI allI impI)
  fix n assume n: "n < length (rows (inventory_items s))"
  then show "snd (rows (inventory_items (fst (create_transaction now s transaction))) ! n) =
        (snd (rows (inventory_items s) ! n))
          \<lparr>ii_quantity :=
             ii_quantity (snd (rows (inventory_items (fst (create_transaction now s transaction))) ! n))\<rparr>"
    by (cases "\<exists>new_trans. snd (create_transaction now s transaction) = Inr new_trans")
      (simp_all add: inventory_items_create_transaction rows_update_by_id_nth)
  from n show "ii_status (snd (rows (inventory_items (fst (create_transaction now s transaction))) ! n)) =
          ii_status (snd (rows (inventory_items s) ! n))"
    by (cases "\<exists>new_trans. snd (create_transaction now s transaction) = Inr new_trans")
      (simp_all add: inventory_items_create_transaction rows_update_by_id_nth)
next
  let ?s = "fst (create_transaction [] fresh_install (sale 1 110))"
  have "reachable ?s"
    by (rule reachable.create_transaction [OF fresh_install_reachable])
  moreover have "0 < length (rows (inventory_items ?s))"
    using keys_update_by_id [of _ 1 "inventory_items fresh_install", THEN arg_cong, of length]
    by (cases "\<exists>new_trans. snd (create_transaction [] fresh_install (sale 1 110)) = Inr new_trans")
      (simp_all add: inventory_items_create_transaction fresh_install_items seed_items_def
        sale_def)
  ultimately show "\<exists>s' n. reachable s' \<and> n < length (rows (inventory_items s')) \<and>
         ii_status (snd (rows (inventory_items s') ! n)) = ''In Stock'' \<and>
         ii_quantity (snd (rows (inventory_items s') ! n))
           < ii_min_stock (snd (rows (inventory_items s') ! n))"
    using stale_status [of "[]"] by (intro exI [of _ ?s] exI [of _ 0]) simp
qed

theorem create_transaction_keeps_other_fields_witness:
  "0 < length (rows (inventory_items fresh_install)) \<and>
   ii_status (snd (rows (inventory_items fresh_install) ! 0)) = ''In Stock'' \<and>
   ii_status (snd (rows (inventory_items
      (fst (create_transaction ''2024-02-01 09:30:00'' fresh_install (sale 1 110)))) ! 0))
     = ''In Stock'' \<and>
   ii_quantity (snd (rows (inventory_items
      (fst (create_transaction ''2024-02-01 09:30:00'' fresh_install (sale 1 110)))) ! 0)) = 40 \<and>
   ii_min_stock (snd (rows (inventory_items
      (fst (create_transaction ''2024-02-01 09:30:00'' fresh_install (sale 1 110)))) ! 0)) = 50"
proof -
  have len: "0 < length (rows (inventory_items fresh_install))"
    by (simp add: fresh_install_items seed_items_def)
  have before: "ii_status (snd (rows (inventory_items fresh_install) ! 0)) = ''In Stock''"
    by (simp add: fresh_install_items seed_items_def)
  from create_transaction_keeps_other_fields
         [of fresh_install "''2024-02-01 09:30:00''" "sale 1 110",
          THEN conjunct1, rule_format, OF len, THEN conjunct2]
  have "ii_status (snd (rows (inventory_items
      (fst (create_transaction ''2024-02-01 09:30:00'' fresh_install (sale 1 110)))) ! 0))
     = ''In Stock''"
    by (simp only: before)
  with len before stale_status [of "''2024-02-01 09:30:00''"] show ?thesis by simp
qed

section \<open>Transactions with dangling references\<close>






section \<open>Low stock report\<close>

lemma low_stock_rows:
  "map (\<lambda>x. (low_id x, low_ii x)) (get_low_stock_report d) =
     sort_key (ii_quantity \<circ> snd)
       (filter (\<lambda>(k, r). ii_quantity r < ii_min_stock r) (rows (inventory_items d)))"
  by (simp add: get_low_stock_report_def comp_def case_prod_beta)

text \<open>
  C5.  The low stock report holds exactly the stored items whose quantity is below their
  \<^verbatim>\<open>min_stock\<close>, each as often as the table holds it, and lists them by ascending
  quantity.  The stored status plays no part: the condition is on the two columns alone.
\<close>

theorem get_low_stock_report_exact:
  "mset (map (\<lambda>x. (low_id x, low_ii x)) (get_low_stock_report d)) =
     filter_mset (\<lambda>(k, r). ii_quantity r < ii_min_stock r) (mset (rows (inventory_items d)))
   \<and> set (map (\<lambda>x. (low_id x, low_ii x)) (get_low_stock_report d)) =
     {(k, r). (k, r) \<in> set (rows (inventory_items d)) \<and> ii_quantity r < ii_min_stock r}
   \<and> sorted (map (ii_quantity \<circ> low_ii) (get_low_stock_report d))"
proof (intro conjI)
  show "mset (map (\<lambda>x. (low_id x, low_ii x)) (get_low_stock_report d)) =
     filter_mset (\<lambda>(k, r). ii_quantity r < ii_min_stock r) (mset (rows (inventory_items d)))"
    by (simp add: low_stock_rows)
  show "set (map (\<lambda>x. (low_id x, low_ii x)) (get_low_stock_report d)) =
     {(k, r). (k, r) \<in> set (rows (inventory_items d)) \<and> ii_quantity r < ii_min_stock r}"
    unfolding low_stock_rows by auto
  have "map (ii_quantity \<circ> low_ii) (get_low_stock_report d) =
      map (ii_quantity \<circ> snd) (map (\<lambda>x. (low_id x, low_ii x)) (get_low_stock_report d))"
    by simp
  also have "\<dots> = map (ii_quantity \<circ> snd) (sort_key (ii_quantity \<circ> snd)
       (filter (\<lambda>(k, r). ii_quantity r < ii_min_stock r) (rows (inventory_items d))))"
    by (simp only: low_stock_rows)
  finally show "sorted (map (ii_quantity \<circ> low_ii) (get_low_stock_report d))"
    by (simp only: sorted_sort_key)
qed

lemma fresh_install_low_stock:
  "map low_id (get_low_stock_report fresh_install) = [8, 4, 2]"
  by (simp add: get_low_stock_report_def fresh_install_items seed_items_def)

lemma stale_item_reported:
  "map low_id (get_low_stock_report
      (fst (create_transaction now fresh_install (sale 1 110)))) = [8, 4, 1, 2] \<and>
   map (ii_status \<circ> low_ii) (get_low_stock_report
      (fst (create_transaction now fresh_install (sale 1 110))))
     = [''Low Stock'', ''Low Stock'', ''In Stock'', ''Low Stock'']"
proof -
  have "bindable 1" "bindable 110" by (simp_all add: bindable_def)
  from fresh_install_sale [OF this, of now] show ?thesis
    by (simp add: get_low_stock_report_def update_by_id_def fresh_install_items
        seed_items_def sql_subtract_def bindable_def)
qed

section \<open>Status on create and update\<close>

lemma fresh_install_skus:
  "map (ii_sku \<circ> snd) (rows (inventory_items fresh_install)) =
     [''TCB-001'', ''TCC-001'', ''PA4-500'', ''IC-001'', ''TCB-002'', ''PA4-2500'', ''IC-002'',
      ''TCX-001'']"
  by (simp add: fresh_install_items seed_items_def)

lemma fresh_install_next_item: "next_rowid (inventory_items fresh_install) = 9"
  by (simp add: fresh_install_def seeded_inventory_items next_rowid_def seed_items_def)

lemma stock_item_bindable:
  "bindable q \<Longrightarrow> bindable m \<Longrightarrow>
   list_all bindable
     [item_category_id (stock_item sku q m), item_quantity (stock_item sku q m),
      item_min_stock (stock_item sku q m), item_location_id (stock_item sku q m)]"
  by (simp add: stock_item_def bindable_def)

lemma create_stock_item_fresh_install:
  assumes "bindable q" and "bindable m"
    and "sku \<notin> set (map (ii_sku \<circ> snd) (rows (inventory_items fresh_install)))"
  shows "\<exists>new_item. snd (create_inventory_item now fresh_install (stock_item sku q m)) = Inr new_item"
proof -
  have "next_rowid (inventory_items fresh_install) \<le> 2 ^ 63 - 1"
    by (simp add: fresh_install_next_item)
  moreover have "\<not> insert_conflict ii_sku (item_sku (stock_item sku q m))
      (inventory_items fresh_install)"
    using assms(3) by (simp add: insert_conflict_def stock_item_def)
  moreover have "item_price (stock_item sku q m) \<noteq> NaN"
    by (simp add: stock_item_def)
  ultimately show ?thesis
    using create_inventory_item_stored [OF stock_item_bindable [OF assms(1,2)], of fresh_install sku now]
    by (metis snd_conv)
qed

text \<open>
  C3.  When \<^verbatim>\<open>create_inventory_item\<close> returns, the row it appended holds the
  request's quantity and \<^verbatim>\<open>min_stock\<close>, and the status \<^verbatim>\<open>Low Stock\<close> if the
  quantity is below \<^verbatim>\<open>min_stock\<close> and \<^verbatim>\<open>In Stock\<close> otherwise.  When
  \<^verbatim>\<open>update_inventory_item\<close> returns, the row of that id is the returned one and every
  row of that id holds the request's quantity and \<^verbatim>\<open>min_stock\<close> and the status
  computed from them by the same rule.
\<close>

theorem item_status_on_create_and_update:
  "(snd (create_inventory_item now s item) = Inr new_item \<longrightarrow>
      rows (inventory_items (fst (create_inventory_item now s item))) =
        rows (inventory_items s) @ [(result_id new_item, result_ii new_item)]
      \<and> ii_quantity (result_ii new_item) = item_quantity item
      \<and> ii_min_stock (result_ii new_item) = item_min_stock item
      \<and> ii_status (result_ii new_item) =
          (if item_quantity item < item_min_stock item then ''Low Stock'' else ''In Stock''))
   \<and> (snd (update_inventory_item s item_id item) = Inr updated_item \<longrightarrow>
      result_id updated_item = item_id
      \<and> select_by_id (inventory_items (fst (update_inventory_item s item_id item))) item_id =
          Some (result_ii updated_item)
      \<and> (\<forall>n < length (rows (inventory_items (fst (update_inventory_item s item_id item)))).
           fst (rows (inventory_items (fst (update_inventory_item s item_id item))) ! n) = item_id \<longrightarrow>
           ii_quantity (snd (rows (inventory_items (fst (update_inventory_item s item_id item))) ! n))
             = item_quantity item
           \<and> ii_min_stock (snd (rows (inventory_items (fst (update_inventory_item s item_id item))) ! n))
             = item_min_stock item
           \<and> ii_status (snd (rows (inventory_items (fst (update_inventory_item s item_id item))) ! n))
             = (if item_quantity item < item_min_stock item then ''Low Stock'' else ''In Stock'')))"
proof (intro conjI impI)
  assume ok: "snd (create_inventory_item now s item) = Inr new_item"
  from create_inventory_item_Inr [OF ok]
  have accepted: "list_all bindable
     [item_category_id item, item_quantity item, item_min_stock item, item_location_id item]"
    "next_rowid (inventory_items s) \<le> 2 ^ 63 - 1"
    "\<not> insert_conflict ii_sku (item_sku item) (inventory_items s)"
    "item_price item \<noteq> NaN"
    by blast+
  from create_inventory_item_stored [OF accepted, of now] ok
  have res: "inventory_items (fst (create_inventory_item now s item)) =
      (inventory_items s)
        \<lparr>rows := rows (inventory_items s) @ [(next_rowid (inventory_items s), result_ii new_item)],
         seq := next_rowid (inventory_items s)\<rparr>"
    and rid: "result_id new_item = next_rowid (inventory_items s)"
    and row: "result_ii new_item =
         \<lparr>ii_name = item_name item, ii_sku = item_sku item,
          ii_category_id = item_category_id item, ii_quantity = item_quantity item,
          ii_min_stock = item_min_stock item, ii_price = item_price item,
          ii_location_id = item_location_id item, ii_printer_id = None,
          ii_status = (if item_quantity item < item_min_stock item
                       then ''Low Stock'' else ''In Stock''),
          ii_created_at = now\<rparr>"
    by auto
  show "rows (inventory_items (fst (create_inventory_item now s item))) =
        rows (inventory_items s) @ [(result_id new_item, result_ii new_item)]"
    by (simp add: res rid)
  show "ii_quantity (result_ii new_item) = item_quantity item"
    by (simp add: row)
  show "ii_min_stock (result_ii new_item) = item_min_stock item"
    by (simp add: row)
  show "ii_status (result_ii new_item) =
          (if item_quantity item < item_min_stock item then ''Low Stock'' else ''In Stock'')"
    by (simp add: row)
next
  let ?f = "\<lambda>r. r\<lparr>ii_name := item_name item, ii_sku := item_sku item,
                  ii_category_id := item_category_id item, ii_quantity := item_quantity item,
                  ii_min_stock := item_min_stock item, ii_price := item_price item,
                  ii_location_id := item_location_id item,
                  ii_status := (if item_quantity item < item_min_stock item
                                then ''Low Stock'' else ''In Stock'')\<rparr>"
  assume ok: "snd (update_inventory_item s item_id item) = Inr updated_item"
  from update_inventory_item_Inr [OF ok]
  obtain r where accepted: "list_all bindable
     [item_category_id item, item_quantity item, item_min_stock item, item_location_id item,
      item_id]"
    "\<not> update_conflict ii_sku (item_sku item) item_id (inventory_items s)"
    "item_price item \<noteq> NaN"
    "select_by_id (inventory_items s) item_id = Some r"
    by blast
  note present = update_inventory_item_present [OF accepted]
  from present have res: "inventory_items (fst (update_inventory_item s item_id item)) =
      update_by_id ?f item_id (inventory_items s)"
    by simp
  from present ok have upd: "result_id updated_item = item_id" "result_ii updated_item = ?f r"
    by auto
  show "result_id updated_item = item_id" by (rule upd)
  show "select_by_id (inventory_items (fst (update_inventory_item s item_id item))) item_id =
          Some (result_ii updated_item)"
    by (simp add: res select_by_id_update_by_id accepted(4) upd)
  show "\<forall>n < length (rows (inventory_items (fst (update_inventory_item s item_id item)))).
           fst (rows (inventory_items (fst (update_inventory_item s item_id item))) ! n) = item_id \<longrightarrow>
           ii_quantity (snd (rows (inventory_items (fst (update_inventory_item s item_id item))) ! n))
             = item_quantity item
           \<and> ii_min_stock (snd (rows (inventory_items (fst (update_inventory_item s item_id item))) ! n))
             = item_min_stock item
           \<and> ii_status (snd (rows (inventory_items (fst (update_inventory_item s item_id item))) ! n))
             = (if item_quantity item < item_min_stock item then ''Low Stock'' else ''In Stock'')"
  proof (intro allI impI)
    fix n
    assume n: "n < length (rows (inventory_items (fst (update_inventory_item s item_id item))))"
      and k: "fst (rows (inventory_items (fst (update_inventory_item s item_id item))) ! n) = item_id"
    from n have n': "n < length (rows (inventory_items s))"
      by (simp add: res update_by_id_def)
    from k have "fst (rows (inventory_items s) ! n) = item_id"
      using n' by (simp add: res rows_update_by_id_nth split: if_splits)
    then have "rows (inventory_items (fst (update_inventory_item s item_id item))) ! n =
        (item_id, ?f (snd (rows (inventory_items s) ! n)))"
      using n' by (simp add: res rows_update_by_id_nth)
    then show "ii_quantity (snd (rows (inventory_items (fst (update_inventory_item s item_id item))) ! n))
             = item_quantity item
           \<and> ii_min_stock (snd (rows (inventory_items (fst (update_inventory_item s item_id item))) ! n))
             = item_min_stock item
           \<and> ii_status (snd (rows (inventory_items (fst (update_inventory_item s item_id item))) ! n))
             = (if item_quantity item < item_min_stock item then ''Low Stock'' else ''In Stock'')"
      by simp
  qed
qed

theorem item_status_on_create_and_update_witness:
  "(\<exists>new_item.
      snd (create_inventory_item ''2024-02-01 09:30:00'' fresh_install (stock_item ''DRM-001'' 3 5))
        = Inr new_item \<and>
      ii_status (result_ii new_item) = ''Low Stock'') \<and>
   (\<exists>new_item.
      snd (create_inventory_item ''2024-02-01 09:30:00'' fresh_install (stock_item ''DRM-001'' 5 5))
        = Inr new_item \<and>
      ii_status (result_ii new_item) = ''In Stock'') \<and>
   (\<exists>updated_item.
      snd (update_inventory_item fresh_install 2 (stock_item ''TCC-001'' 60 50)) = Inr updated_item \<and>
      ii_status (result_ii updated_item) = ''In Stock'' \<and>
      select_by_id
        (inventory_items (fst (update_inventory_item fresh_install 2 (stock_item ''TCC-001'' 60 50))))
        2 = Some (result_ii updated_item))"
proof (intro conjI)
  have small: "bindable 3" "bindable 5" by (simp_all add: bindable_def)
  have fresh: "''DRM-001'' \<notin> set (map (ii_sku \<circ> snd) (rows (inventory_items fresh_install)))"
    by (simp add: fresh_install_skus)
  from create_stock_item_fresh_install [OF small fresh, of "''2024-02-01 09:30:00''"]
  obtain a where a: "snd (create_inventory_item ''2024-02-01 09:30:00'' fresh_install
      (stock_item ''DRM-001'' 3 5)) = Inr a"
    by auto
  from item_status_on_create_and_update [THEN conjunct1, rule_format, OF a]
  have "ii_status (result_ii a) = ''Low Stock''"
    by (simp add: stock_item_def)
  with a show "\<exists>new_item.
      snd (create_inventory_item ''2024-02-01 09:30:00'' fresh_install (stock_item ''DRM-001'' 3 5))
        = Inr new_item \<and>
      ii_status (result_ii new_item) = ''Low Stock''"
    by blast
  from create_stock_item_fresh_install [OF small(2) small(2) fresh, of "''2024-02-01 09:30:00''"]
  obtain b where b: "snd (create_inventory_item ''2024-02-01 09:30:00'' fresh_install
      (stock_item ''DRM-001'' 5 5)) = Inr b"
    by auto
  from item_status_on_create_and_update [THEN conjunct1, rule_format, OF b]
  have "ii_status (result_ii b) = ''In Stock''"
    by (simp add: stock_item_def)
  with b show "\<exists>new_item.
      snd (create_inventory_item ''2024-02-01 09:30:00'' fresh_install (stock_item ''DRM-001'' 5 5))
        = Inr new_item \<and>
      ii_status (result_ii new_item) = ''In Stock''"
    by blast
  have bound: "list_all bindable
     [item_category_id (stock_item ''TCC-001'' 60 50), item_quantity (stock_item ''TCC-001'' 60 50),
      item_min_stock (stock_item ''TCC-001'' 60 50), item_location_id (stock_item ''TCC-001'' 60 50),
      2]"
    by (simp add: stock_item_def bindable_def)
  have noconf: "\<not> update_conflict ii_sku (item_sku (stock_item ''TCC-001'' 60 50)) 2
      (inventory_items fresh_install)"
    by (simp add: update_conflict_def fresh_install_items seed_items_def stock_item_def)
  have price: "item_price (stock_item ''TCC-001'' 60 50) \<noteq> NaN"
    by (simp add: stock_item_def)
  have "2 \<in> set (map fst (rows (inventory_items fresh_install)))"
    by (simp add: fresh_install_item_ids)
  then obtain r where present: "select_by_id (inventory_items fresh_install) 2 = Some r"
    using select_by_id_None [of "inventory_items fresh_install" 2] by auto
  from update_inventory_item_present [OF bound noconf price present]
  obtain u where u: "snd (update_inventory_item fresh_install 2 (stock_item ''TCC-001'' 60 50)) = Inr u"
    by auto
  from item_status_on_create_and_update [THEN conjunct2, rule_format, OF u]
  have sel: "select_by_id
        (inventory_items (fst (update_inventory_item fresh_install 2 (stock_item ''TCC-001'' 60 50))))
        2 = Some (result_ii u)"
    and all: "\<forall>n < length (rows (inventory_items
          (fst (update_inventory_item fresh_install 2 (stock_item ''TCC-001'' 60 50))))).
        fst (rows (inventory_items
          (fst (update_inventory_item fresh_install 2 (stock_item ''TCC-001'' 60 50)))) ! n) = 2 \<longrightarrow>
        ii_status (snd (rows (inventory_items
          (fst (update_inventory_item fresh_install 2 (stock_item ''TCC-001'' 60 50)))) ! n))
          = (if item_quantity (stock_item ''TCC-001'' 60 50) < item_min_stock (stock_item ''TCC-001'' 60 50)
             then ''Low Stock'' else ''In Stock'')"
    by auto
  from select_by_id_Some_nth [OF sel] all
  have "ii_status (result_ii u) = ''In Stock''"
    by (auto simp: stock_item_def)
  with u sel show "\<exists>updated_item.
      snd (update_inventory_item fresh_install 2 (stock_item ''TCC-001'' 60 50)) = Inr updated_item \<and>
      ii_status (result_ii updated_item) = ''In Stock'' \<and>
      select_by_id
        (inventory_items (fst (update_inventory_item fresh_install 2 (stock_item ''TCC-001'' 60 50))))
        2 = Some (result_ii updated_item)"
    by blast
qed

section \<open>Unique columns\<close>

subsection \<open>Creating two items with one SKU\<close>






subsection \<open>Updating an item to a SKU in use\<close>

text \<open>
  C7.  On the seeded database, updating item 2 to the SKU \<^verbatim>\<open>TCB-001\<close> of item 1
  does not raise an \<^verbatim>\<open>HTTPException\<close> with status 400: the
  \<^verbatim>\<open>sqlite3.IntegrityError\<close> of the \<^verbatim>\<open>UPDATE\<close> leaves
  \<^verbatim>\<open>update_inventory_item\<close> uncaught.  \<^verbatim>\<open>create_inventory_item\<close> with the same
  request catches it and raises \<^verbatim>\<open>HTTPException(400, "SKU already exists")\<close>.
\<close>

theorem update_inventory_item_duplicate_sku_uncaught:
  "update_inventory_item fresh_install 2 (stock_item ''TCB-001'' 45 50) =
     (fresh_install, Inl IntegrityError)
   \<and> create_inventory_item now fresh_install (stock_item ''TCB-001'' 45 50) =
     (fresh_install, Inl (HTTPException 400 ''SKU already exists''))"
proof
  have "update_conflict ii_sku (item_sku (stock_item ''TCB-001'' 45 50)) 2
      (inventory_items fresh_install)"
    by (simp add: update_conflict_def fresh_install_items seed_items_def stock_item_def)
  then show "update_inventory_item fresh_install 2 (stock_item ''TCB-001'' 45 50) =
     (fresh_install, Inl IntegrityError)"
    by (intro update_inventory_item_conflict disjI1)
      (simp_all add: stock_item_def bindable_def)
  have "insert_conflict ii_sku (item_sku (stock_item ''TCB-001'' 45 50))
      (inventory_items fresh_install)"
    by (simp add: insert_conflict_def fresh_install_skus stock_item_def)
  then show "create_inventory_item now fresh_install (stock_item ''TCB-001'' 45 50) =
     (fresh_install, Inl (HTTPException 400 ''SKU already exists''))"
    by (intro create_inventory_item_refused disjI1)
      (simp_all add: stock_item_def bindable_def fresh_install_next_item)
qed

section \<open>A call that raises stores nothing\<close>

lemma register_conflict:
  "next_rowid (users s) \<le> 2 ^ 63 - 1 \<Longrightarrow>
   insert_conflict u_username (user_username user) (users s)
     \<or> insert_conflict u_email (user_email user) (users s) \<Longrightarrow>
   register now s user = (s, Inl (HTTPException 400 ''Username or email already exists''))"
  by (auto simp: register_def conn_defs insert_users_def Let_def insert_row_def)

lemma update_location_absent:
  "bindable location_id \<Longrightarrow>
   location_id \<notin> set (map fst (rows (locations s))) \<Longrightarrow>
   update_location s location_id location = (s, Inl (HTTPException 404 ''Location not found''))"
  by (simp add: update_location_def conn_defs update_locations_def Let_def
      update_conflict_absent update_by_id_absent select_by_id_None [THEN iffD2])

lemma update_printer_absent:
  "list_all bindable [printer_location_id printer, pid] \<Longrightarrow>
   pid \<notin> set (map fst (rows (printers s))) \<Longrightarrow>
   update_printer s pid printer = (s, Inl (HTTPException 404 ''Printer not found''))"
  by (simp add: update_printer_def conn_defs update_printers_def Let_def
      update_conflict_absent update_by_id_absent select_printer_def
      select_by_id_None [THEN iffD2])

lemma register_error:
  "snd (register now s user) = Inl e \<Longrightarrow> fst (register now s user) = s"
  by (auto simp: register_def conn_defs insert_users_def Let_def insert_row_def
      select_by_id_appended split: if_splits)

lemma create_category_error:
  "snd (create_category now s category) = Inl e \<Longrightarrow> fst (create_category now s category) = s"
  by (auto simp: create_category_def conn_defs insert_categories_def Let_def insert_row_def
      select_by_id_appended split: if_splits)

lemma create_location_error:
  "snd (create_location now s location) = Inl e \<Longrightarrow> fst (create_location now s location) = s"
  by (auto simp: create_location_def conn_defs insert_locations_def Let_def insert_row_def
      select_by_id_appended split: if_splits)

lemma create_printer_error:
  "snd (create_printer now s printer) = Inl e \<Longrightarrow> fst (create_printer now s printer) = s"
  by (auto simp: create_printer_def conn_defs insert_printers_def Let_def insert_row_def
      select_printer_def select_by_id_appended split: if_splits)

lemma update_location_error:
  "snd (update_location s location_id location) = Inl e \<Longrightarrow>
   fst (update_location s location_id location) = s"
proof (cases "location_id \<in> set (map fst (rows (locations s)))")
  case absent: False
  show ?thesis
  proof (cases "bindable location_id")
    case True
    from update_location_absent [OF True absent] show ?thesis by simp
  next
    case False
    then show ?thesis
      by (simp add: update_location_def conn_defs update_locations_def Let_def)
  qed
next
  case True
  then obtain r where r: "select_by_id (locations s) location_id = Some r"
    using select_by_id_None [of "locations s" location_id] by auto
  assume "snd (update_location s location_id location) = Inl e"
  with r show ?thesis
    by (simp add: update_location_def conn_defs update_locations_def Let_def
        select_by_id_update_by_id split: if_splits)
qed

lemma update_printer_error:
  "snd (update_printer s pid printer) = Inl e \<Longrightarrow> fst (update_printer s pid printer) = s"
proof (cases "pid \<in> set (map fst (rows (printers s)))")
  case absent: False
  show ?thesis
  proof (cases "list_all bindable [printer_location_id printer, pid]")
    case True
    from update_printer_absent [OF True absent] show ?thesis by simp
  next
    case False
    then show ?thesis
      by (simp add: update_printer_def conn_defs update_printers_def Let_def)
  qed
next
  case True
  then obtain r where r: "select_by_id (printers s) pid = Some r"
    using select_by_id_None [of "printers s" pid] by auto
  assume "snd (update_printer s pid printer) = Inl e"
  with r show ?thesis
    by (auto simp: update_printer_def conn_defs update_printers_def Let_def
        select_printer_def select_by_id_update_by_id split: if_splits)
qed

text \<open>
  C10.  Whenever \<^verbatim>\<open>register\<close>, \<^verbatim>\<open>create_category\<close>,
  \<^verbatim>\<open>create_inventory_item\<close>, \<^verbatim>\<open>create_location\<close>, \<^verbatim>\<open>create_printer\<close>,
  \<^verbatim>\<open>update_inventory_item\<close>, \<^verbatim>\<open>update_location\<close> or \<^verbatim>\<open>update_printer\<close>
  raises, the stored database after the call is the one before it.
\<close>

theorem failed_call_leaves_database:
  "(snd (register now s user) = Inl e \<longrightarrow> fst (register now s user) = s)
   \<and> (snd (create_category now s category) = Inl e \<longrightarrow>
        fst (create_category now s category) = s)
   \<and> (snd (create_inventory_item now s item) = Inl e \<longrightarrow>
        fst (create_inventory_item now s item) = s)
   \<and> (snd (create_location now s location) = Inl e \<longrightarrow>
        fst (create_location now s location) = s)
   \<and> (snd (create_printer now s printer) = Inl e \<longrightarrow>
        fst (create_printer now s printer) = s)
   \<and> (snd (update_inventory_item s item_id item) = Inl e \<longrightarrow>
        fst (update_inventory_item s item_id item) = s)
   \<and> (snd (update_location s location_id location) = Inl e \<longrightarrow>
        fst (update_location s location_id location) = s)
   \<and> (snd (update_printer s pid printer) = Inl e \<longrightarrow>
        fst (update_printer s pid printer) = s)"
  by (intro conjI impI register_error create_category_error create_inventory_item_error
      create_location_error create_printer_error update_inventory_item_error
      update_location_error update_printer_error)

theorem failed_call_leaves_database_witness:
  "snd (register ''2024-02-01 09:30:00'' fresh_install (new_user ''admin'' ''root@ims.com''))
     = Inl (HTTPException 400 ''Username or email already exists'') \<and>
   fst (register ''2024-02-01 09:30:00'' fresh_install (new_user ''admin'' ''root@ims.com''))
     = fresh_install \<and>
   snd (create_inventory_item ''2024-02-01 09:30:00'' fresh_install (stock_item ''TCB-001'' 3 5))
     = Inl (HTTPException 400 ''SKU already exists'') \<and>
   fst (create_inventory_item ''2024-02-01 09:30:00'' fresh_install (stock_item ''TCB-001'' 3 5))
     = fresh_install \<and>
   snd (update_inventory_item fresh_install 999 (stock_item ''DRM-001'' 3 5))
     = Inl (HTTPException 404 ''Item not found'') \<and>
   fst (update_inventory_item fresh_install 999 (stock_item ''DRM-001'' 3 5)) = fresh_install \<and>
   snd (update_location fresh_install 999 (new_location ''Annex''))
     = Inl (HTTPException 404 ''Location not found'') \<and>
   fst (update_location fresh_install 999 (new_location ''Annex'')) = fresh_install"
proof -
  have "insert_conflict u_username (user_username (new_user ''admin'' ''root@ims.com''))
          (users fresh_install)"
    by (simp add: insert_conflict_def fresh_install_def seeded_users seed_users_def new_user_def)
  moreover have "next_rowid (users fresh_install) \<le> 2 ^ 63 - 1"
    by (simp add: fresh_install_def seeded_users next_rowid_def seed_users_def)
  ultimately have a: "snd (register ''2024-02-01 09:30:00'' fresh_install
      (new_user ''admin'' ''root@ims.com''))
     = Inl (HTTPException 400 ''Username or email already exists'')"
    by (simp add: register_conflict)
  have "insert_conflict ii_sku (item_sku (stock_item ''TCB-001'' 3 5))
      (inventory_items fresh_install)"
    by (simp add: insert_conflict_def fresh_install_skus stock_item_def)
  then have "create_inventory_item ''2024-02-01 09:30:00'' fresh_install
      (stock_item ''TCB-001'' 3 5) = (fresh_install, Inl (HTTPException 400 ''SKU already exists''))"
    by (intro create_inventory_item_refused disjI1)
      (simp_all add: stock_item_def bindable_def fresh_install_next_item)
  then have b: "snd (create_inventory_item ''2024-02-01 09:30:00'' fresh_install
      (stock_item ''TCB-001'' 3 5)) = Inl (HTTPException 400 ''SKU already exists'')"
    by simp
  have "999 \<notin> set (map fst (rows (inventory_items fresh_install)))"
    by (simp add: fresh_install_item_ids)
  moreover have "list_all bindable
     [item_category_id (stock_item ''DRM-001'' 3 5), item_quantity (stock_item ''DRM-001'' 3 5),
      item_min_stock (stock_item ''DRM-001'' 3 5), item_location_id (stock_item ''DRM-001'' 3 5),
      999]"
    by (simp add: stock_item_def bindable_def)
  ultimately have c: "snd (update_inventory_item fresh_install 999 (stock_item ''DRM-001'' 3 5))
     = Inl (HTTPException 404 ''Item not found'')"
    by (simp add: update_inventory_item_absent)
  have "999 \<notin> set (map fst (rows (locations fresh_install)))"
    by (simp add: fresh_install_def seeded_locations seed_locations_def)
  moreover have "bindable 999" by (simp add: bindable_def)
  ultimately have d: "snd (update_location fresh_install 999 (new_location ''Annex''))
     = Inl (HTTPException 404 ''Location not found'')"
    by (simp add: update_location_absent)
  note leaves = failed_call_leaves_database
  from leaves [where e = "HTTPException 400 ''Username or email already exists''",
            THEN conjunct1, rule_format, OF a]
       leaves [where e = "HTTPException 400 ''SKU already exists''",
            THEN conjunct2, THEN conjunct2, THEN conjunct1, rule_format, OF b]
       leaves [where e = "HTTPException 404 ''Item not found''",
            THEN conjunct2, THEN conjunct2, THEN conjunct2, THEN conjunct2, THEN conjunct2,
            THEN conjunct1, rule_format, OF c]
       leaves [where e = "HTTPException 404 ''Location not found''",
            THEN conjunct2, THEN conjunct2, THEN conjunct2, THEN conjunct2, THEN conjunct2,
            THEN conjunct2, THEN conjunct1, rule_format, OF d]
       a b c d
  show ?thesis by simp
qed

end
